theory Spec2Isabelle
  imports Complex_Main "HOL-Library.AList"
begin

section \<open>JavaScript values, exceptions and effects\<close>

text \<open>
  The modules under verification are browser scripts. Their values are JavaScript values,
  their failures are thrown exceptions (or rejected promises), and their effects are writes
  to \<open>localStorage\<close>, dispatched \<open>CustomEvent\<close>s and requests to the hosted collaborator.
  Only the \<open>message\<close> of a thrown value is ever read by the code, so a thrown (or
  rejected) value is modelled by what \<open>e.message\<close> does on it: \<open>Error m\<close> is a value whose
  message is the string \<open>m\<close>, \<open>NoMessage\<close> a value that has no message (\<open>e.message\<close> is
  \<open>undefined\<close>), and \<open>Nullish\<close> is \<open>undefined\<close> or \<open>null\<close>, on which \<open>e.message\<close> itself throws a
  \<open>TypeError\<close>.
\<close>

datatype jsval =
    JUndefined
  | JNull
  | JBool bool
  | JNum real
  | JStr string
  | JArr "jsval list"
  | JObj "(string \<times> jsval) list"

datatype exn = Error string | NoMessage | Nullish

text \<open>\<open>e.message\<close>\<close>

fun message_of :: "exn \<Rightarrow> exn + string option" where
  "message_of (Error m) = Inr (Some m)"
| "message_of NoMessage = Inr None"
| "message_of Nullish = Inl (Error ''Cannot read properties of undefined'')"

text \<open>A dispatched \<open>CustomEvent\<close>: its type and its \<open>detail\<close> (absent when none is given).\<close>

datatype event = Event string "jsval option"

text \<open>
  The part of the browser window the storage code touches. \<open>JSON_stringify\<close> and
  \<open>JSON_parse\<close> are platform functions and are taken as parameters of the page;
  \<open>JSON_stringify v\<close> stands for the text that \<open>localStorage.setItem(k, JSON.stringify(v))\<close>
  stores. \<open>localStorage\<close> is the list of stored items, \<open>quota\<close> the number of characters
  the platform lets the page store: \<open>setItem\<close> throws when the write would exceed it.
\<close>

record page =
  JSON_stringify :: "jsval \<Rightarrow> exn + string"
  JSON_parse :: "string \<Rightarrow> exn + jsval"
  localStorage :: "(string \<times> string) list"
  quota :: nat
  events :: "event list"

text \<open>A computation reads and updates the state and either returns or throws.\<close>

type_synonym ('w, 'a) js = "'w \<Rightarrow> (exn + 'a) \<times> 'w"

definition ret :: "'a \<Rightarrow> ('w, 'a) js" where
  "ret x w = (Inr x, w)"

definition throw :: "exn \<Rightarrow> ('w, 'a) js" where
  "throw e w = (Inl e, w)"

definition bindJ :: "('w, 'a) js \<Rightarrow> ('a \<Rightarrow> ('w, 'b) js) \<Rightarrow> ('w, 'b) js" where
  "bindJ m f w = (case m w of (Inl e, w') \<Rightarrow> (Inl e, w') | (Inr x, w') \<Rightarrow> f x w')"

definition try_catch :: "('w, 'a) js \<Rightarrow> (exn \<Rightarrow> ('w, 'a) js) \<Rightarrow> ('w, 'a) js" where
  "try_catch m h w = (case m w of (Inl e, w') \<Rightarrow> h e w' | (Inr x, w') \<Rightarrow> (Inr x, w'))"

subsection \<open>The platform operations on the page\<close>

definition storage_size :: "(string \<times> string) list \<Rightarrow> nat" where
  "storage_size items = sum_list (map (\<lambda>(k, v). length k + length v) items)"

definition getItem :: "string \<Rightarrow> ('z page_scheme, string option) js" where
  "getItem k w = (Inr (map_of (localStorage w) k), w)"

definition storage_accepts :: "'z page_scheme \<Rightarrow> string \<Rightarrow> string \<Rightarrow> bool" where
  "storage_accepts w k v = (storage_size (AList.update k v (localStorage w)) \<le> quota w)"

definition setItem :: "string \<Rightarrow> string \<Rightarrow> ('z page_scheme, unit) js" where
  "setItem k v w =
     (if storage_accepts w k v
      then (Inr (), w\<lparr>localStorage := AList.update k v (localStorage w)\<rparr>)
      else (Inl (Error ''QuotaExceededError''), w))"

definition removeItem :: "string \<Rightarrow> ('z page_scheme, unit) js" where
  "removeItem k w = (Inr (), w\<lparr>localStorage := AList.delete k (localStorage w)\<rparr>)"

definition dispatchEvent :: "event \<Rightarrow> ('z page_scheme, unit) js" where
  "dispatchEvent ev w = (Inr (), w\<lparr>events := events w @ [ev]\<rparr>)"

definition stringify :: "jsval \<Rightarrow> ('z page_scheme, string) js" where
  "stringify v w = (JSON_stringify w v, w)"

definition parse :: "string \<Rightarrow> ('z page_scheme, jsval) js" where
  "parse s w = (JSON_parse w s, w)"

text \<open>\<open>if (s)\<close> on something that is a string or \<open>null\<close>: the empty string is falsy.\<close>

fun truthy_text :: "string option \<Rightarrow> bool" where
  "truthy_text None = False"
| "truthy_text (Some s) = (s \<noteq> [])"

text \<open>The argument of \<open>JSON.parse\<close> is converted to a string first: \<open>null\<close> reads as the text \<open>null\<close>.\<close>

fun text_of :: "string option \<Rightarrow> string" where
  "text_of None = ''null''"
| "text_of (Some s) = s"

section \<open>The Local Cache Store: \<open>StorageManager\<close>\<close>

definition KEY :: string where
  "KEY = ''mindspend_unified_analysis''"

definition save :: "jsval \<Rightarrow> ('z page_scheme, unit) js" where
  "save d =
     try_catch
       (bindJ (stringify d) (\<lambda>s.
        bindJ (setItem KEY s) (\<lambda>_.
        dispatchEvent (Event ''storageUpdated'' (Some d)))))
       (\<lambda>e. ret ())"

definition load :: "('z page_scheme, jsval) js" where
  "load =
     try_catch
       (bindJ (getItem KEY) (\<lambda>d.
        if truthy_text d then bindJ (parse (text_of d)) (\<lambda>parsed. ret parsed)
        else ret JNull))
       (\<lambda>e. ret JNull)"

definition clear :: "('z page_scheme, unit) js" where
  "clear =
     try_catch
       (bindJ (removeItem KEY) (\<lambda>_. dispatchEvent (Event ''storageCleared'' None)))
       (\<lambda>e. ret ())"

definition exists :: "'z page_scheme \<Rightarrow> bool" where
  "exists w = (map_of (localStorage w) KEY \<noteq> None)"

text \<open>
  The platform's storage-change notification, as the listener reads it: \<open>key\<close> is \<open>null\<close>
  when the other tab cleared the whole storage, \<open>newValue\<close> is \<open>null\<close> when it removed the key.
\<close>

record storage_event =
  key :: "string option"
  newValue :: "string option"

text \<open>The listener registered with \<open>window.addEventListener('storage', ...)\<close>. It has no \<open>try\<close>.\<close>

definition on_storage :: "storage_event \<Rightarrow> ('z page_scheme, unit) js" where
  "on_storage e =
     (if key e = Some KEY
      then bindJ (parse (text_of (newValue e))) (\<lambda>v.
           dispatchEvent (Event ''storageUpdated'' (Some v)))
      else ret ())"

text \<open>
  A value is JSON-serializable on a page when the platform turns it into a non-empty text
  that the platform parses back to the same value.
\<close>

definition json_serializable :: "'z page_scheme \<Rightarrow> jsval \<Rightarrow> bool" where
  "json_serializable w v =
     (case JSON_stringify w v of
        Inl e \<Rightarrow> False
      | Inr s \<Rightarrow> s \<noteq> [] \<and> JSON_parse w s = Inr v)"

text \<open>The storage accepts the write that \<open>save(v)\<close> makes.\<close>

definition save_fits :: "'z page_scheme \<Rightarrow> jsval \<Rightarrow> bool" where
  "save_fits w v =
     (case JSON_stringify w v of
        Inl e \<Rightarrow> False
      | Inr s \<Rightarrow> storage_accepts w KEY s)"

text \<open>
  \<open>JSON.stringify\<close> and \<open>JSON.parse\<close> on the literals \<open>null\<close>, \<open>true\<close>, \<open>false\<close> and on
  \<open>undefined\<close> (which \<open>setItem\<close> stores as the text \<open>undefined\<close>, and which is no JSON text).
  These two functions instantiate the platform parameters at concrete inputs.
\<close>

fun literal_stringify :: "jsval \<Rightarrow> exn + string" where
  "literal_stringify JNull = Inr ''null''"
| "literal_stringify (JBool True) = Inr ''true''"
| "literal_stringify (JBool False) = Inr ''false''"
| "literal_stringify JUndefined = Inr ''undefined''"
| "literal_stringify v = Inl (Error ''not a literal'')"

definition literal_parse :: "string \<Rightarrow> exn + jsval" where
  "literal_parse s =
     (if s = ''null'' then Inr JNull
      else if s = ''true'' then Inr (JBool True)
      else if s = ''false'' then Inr (JBool False)
      else Inl (Error ''SyntaxError: Unexpected token''))"

definition demo_page :: "nat \<Rightarrow> page" where
  "demo_page q =
     \<lparr>JSON_stringify = literal_stringify, JSON_parse = literal_parse,
      localStorage = [], quota = q, events = []\<rparr>"

section \<open>The hosted collaborator\<close>

text \<open>
  The collaborator is reached through \<open>window.supabase\<close>. The code reads \<open>id\<close> and \<open>email\<close>
  of a user object, \<open>code\<close> and \<open>message\<close> of an error object.
\<close>

record auth_user =
  uid :: string
  email :: "string option"

record err =
  code :: string
  msg :: string

text \<open>
  The calls of the query builder, in the order the code chains them. \<open>Select\<close> carries the
  columns asked for (\<open>[]\<close> for \<open>select()\<close> without an argument), \<open>Order\<close> the column and
  whether the order is ascending.
\<close>

datatype step =
    Select string
  | Insert "jsval list"
  | Update jsval
  | Delete
  | Eq string jsval
  | Order string bool
  | Single

datatype request =
    GetUser
  | GetSession
  | SignUp jsval jsval
  | SignInWithPassword jsval jsval
  | SignOut
  | UpdateUser jsval
  | AdminDeleteUser string
  | From string "step list"

text \<open>
  What an awaited collaborator call resolves to: \<open>{ data: { user, session }, error }\<close> for the
  auth calls and \<open>{ data, error }\<close> for a table request. Each caller reads the fields it
  destructures. A call may also reject, which \<open>await\<close> turns into a thrown exception.
\<close>

record reply =
  r_user :: "auth_user option"
  r_session :: bool
  r_data :: jsval
  r_error :: "err option"

type_synonym 's client = "'s \<Rightarrow> request \<Rightarrow> (exn + reply) \<times> 's"

text \<open>
  The page together with the collaborator: \<open>supabase\<close> is \<open>window.supabase\<close> (\<open>null\<close> when the
  library did not load), \<open>remote\<close> the collaborator's own state, which every call may change,
  and \<open>calls\<close> the requests issued so far.
\<close>

record 's world = page +
  supabase :: "'s client option"
  remote :: 's
  calls :: "request list"

definition call :: "'s client \<Rightarrow> request \<Rightarrow> (('s, 'z) world_scheme, reply) js" where
  "call sb rq w =
     (case sb (remote w) rq of (r, s') \<Rightarrow> (r, w\<lparr>remote := s', calls := calls w @ [rq]\<rparr>))"

subsection \<open>Strings and objects\<close>

fun starts_with :: "string \<Rightarrow> string \<Rightarrow> bool" where
  "starts_with s [] = True"
| "starts_with [] (c # cs) = False"
| "starts_with (x # xs) (c # cs) = (x = c \<and> starts_with xs cs)"

text \<open>\<open>s.includes(sub)\<close>\<close>

fun str_includes :: "string \<Rightarrow> string \<Rightarrow> bool" where
  "str_includes [] sub = (sub = [])"
| "str_includes (x # xs) sub = (starts_with (x # xs) sub \<or> str_includes xs sub)"

text \<open>\<open>s.toLowerCase()\<close>, on the letters A to Z.\<close>

definition lower_char :: "char \<Rightarrow> char" where
  "lower_char c =
     (case map_of (zip ''ABCDEFGHIJKLMNOPQRSTUVWXYZ'' ''abcdefghijklmnopqrstuvwxyz'') c of
        None \<Rightarrow> c
      | Some d \<Rightarrow> d)"

definition toLowerCase :: "string \<Rightarrow> string" where
  "toLowerCase s = map lower_char s"

text \<open>\<open>s.split('@')[0]\<close>\<close>

definition local_part :: "string \<Rightarrow> string" where
  "local_part s = takeWhile (\<lambda>c. c \<noteq> CHR ''@'') s"

text \<open>\<open>if (v)\<close>. \<open>NaN\<close> is not among the modelled numbers.\<close>

fun truthy :: "jsval \<Rightarrow> bool" where
  "truthy JUndefined = False"
| "truthy JNull = False"
| "truthy (JBool b) = b"
| "truthy (JNum n) = (n \<noteq> 0)"
| "truthy (JStr s) = (s \<noteq> [])"
| "truthy (JArr xs) = True"
| "truthy (JObj kvs) = True"

text \<open>
  \<open>v.k\<close> for a data property \<open>k\<close>: reading a property of \<open>null\<close> or \<open>undefined\<close> throws a
  \<open>TypeError\<close>; an object yields the stored value or \<open>undefined\<close>. The properties read this way
  (\<open>category\<close>, \<open>value\<close>, \<open>description\<close>, \<open>first_name\<close>, ...) are not defined on primitives and
  arrays.
\<close>

fun get_prop :: "jsval \<Rightarrow> string \<Rightarrow> exn + jsval" where
  "get_prop JUndefined k = Inl (Error ''Cannot read properties of undefined'')"
| "get_prop JNull k = Inl (Error ''Cannot read properties of null'')"
| "get_prop (JObj kvs) k = Inr (case map_of kvs k of None \<Rightarrow> JUndefined | Some v \<Rightarrow> v)"
| "get_prop v k = Inr JUndefined"

definition read_prop :: "jsval \<Rightarrow> string \<Rightarrow> ('w, jsval) js" where
  "read_prop v k w = (get_prop v k, w)"

text \<open>\<open>data[0]\<close>\<close>

fun first_elem :: "jsval \<Rightarrow> exn + jsval" where
  "first_elem JUndefined = Inl (Error ''Cannot read properties of undefined'')"
| "first_elem JNull = Inl (Error ''Cannot read properties of null'')"
| "first_elem (JArr []) = Inr JUndefined"
| "first_elem (JArr (x # xs)) = Inr x"
| "first_elem (JObj kvs) = Inr (case map_of kvs ''0'' of None \<Rightarrow> JUndefined | Some v \<Rightarrow> v)"
| "first_elem (JStr []) = Inr JUndefined"
| "first_elem (JStr (c # cs)) = Inr (JStr [c])"
| "first_elem v = Inr JUndefined"

text \<open>The user object as a value, and the own properties that \<open>{...a, ...b}\<close> copies.\<close>

definition email_val :: "auth_user \<Rightarrow> jsval" where
  "email_val u = (case email u of None \<Rightarrow> JUndefined | Some e \<Rightarrow> JStr e)"

definition user_props :: "auth_user \<Rightarrow> (string \<times> jsval) list" where
  "user_props u = [(''id'', JStr (uid u)), (''email'', email_val u)]"



subsection \<open>The result envelope\<close>

record envelope =
  success :: bool
  error :: "string option"
  requiresLogin :: "bool option"
  data :: "jsval option"
  user :: "jsval option"
  message :: "string option"

text \<open>\<open>{ success: false, error: m }\<close>, where \<open>m\<close> may be \<open>undefined\<close>.\<close>

definition error_envelope :: "string option \<Rightarrow> envelope" where
  "error_envelope m =
     \<lparr>success = False, error = m, requiresLogin = None, data = None, user = None,
      message = None\<rparr>"

definition failure :: "string \<Rightarrow> envelope" where
  "failure m =
     \<lparr>success = False, error = Some m, requiresLogin = None, data = None, user = None,
      message = None\<rparr>"

definition failure_login :: "string \<Rightarrow> envelope" where
  "failure_login m = (failure m)\<lparr>requiresLogin := Some True\<rparr>"

definition succeeded :: envelope where
  "succeeded =
     \<lparr>success = True, error = None, requiresLogin = None, data = None, user = None,
      message = None\<rparr>"

text \<open>
  The body of most \<open>catch\<close> blocks: \<open>return { success: false, error: e.message }\<close>. When the
  caught value is \<open>undefined\<close> or \<open>null\<close> the block itself throws.
\<close>

definition report :: "exn \<Rightarrow> ('w, envelope) js" where
  "report e = (case message_of e of Inl t \<Rightarrow> throw t | Inr m \<Rightarrow> ret (error_envelope m))"

text \<open>A message that may be \<open>undefined\<close>, where the code treats \<open>undefined\<close> and \<open>''\<close> alike.\<close>

fun or_blank :: "string option \<Rightarrow> string" where
  "or_blank None = []"
| "or_blank (Some s) = s"

section \<open>The Auth Session Manager: \<open>AuthManager\<close> of \<open>frontend/utils/auth.js\<close>\<close>

definition getSupabase :: "(('s, 'z) world_scheme, 's client option) js" where
  "getSupabase w = (Inr (supabase w), w)"

definition getCurrentUser :: "(('s, 'z) world_scheme, auth_user option) js" where
  "getCurrentUser =
     try_catch
       (bindJ getSupabase (\<lambda>sb0.
        case sb0 of
          None \<Rightarrow> ret None
        | Some sb \<Rightarrow>
            bindJ (call sb GetUser) (\<lambda>r.
            case r_error r of
              Some e \<Rightarrow> throw (Error (msg e))
            | None \<Rightarrow> ret (r_user r))))
       (\<lambda>e. ret None)"

definition getCurrentProfile :: "(('s, 'z) world_scheme, jsval) js" where
  "getCurrentProfile =
     try_catch
       (bindJ getCurrentUser (\<lambda>user0.
        case user0 of
          None \<Rightarrow> ret JNull
        | Some u \<Rightarrow>
            bindJ getSupabase (\<lambda>sb0.
            case sb0 of
              None \<Rightarrow> ret JNull
            | Some sb \<Rightarrow>
                bindJ (call sb (From ''profiles'' [Select ''*'', Eq ''id'' (JStr (uid u)), Single])) (\<lambda>r.
                case r_error r of
                  Some e \<Rightarrow> (if code e = ''PGRST116'' then ret JNull else ret JNull)
                | None \<Rightarrow> ret (r_data r)))))
       (\<lambda>e. ret JNull)"

text \<open>A parameter with the default value \<open>''\<close>.\<close>

definition or_empty :: "jsval \<Rightarrow> jsval" where
  "or_empty v = (if v = JUndefined then JStr [] else v)"

definition userMessage :: "string \<Rightarrow> string" where
  "userMessage m =
     (if str_includes m ''row-level security''
      then ''Profile creation blocked by database policy. This is likely an RLS configuration issue. Check frontend/RLS_COMPLETE_FIX.md for solution.''
      else if str_includes m ''duplicate'' then ''This email is already registered.''
      else m)"

definition profile_row :: "auth_user \<Rightarrow> jsval \<Rightarrow> jsval \<Rightarrow> jsval \<Rightarrow> jsval \<Rightarrow> jsval" where
  "profile_row u em username firstName lastName =
     JObj [(''id'', JStr (uid u)), (''email'', em), (''username'', username),
           (''first_name'', firstName), (''last_name'', lastName)]"

text \<open>
  \<open>register\<close>. The wait of 1.5 seconds when no session is available yet changes nothing that
  is modelled. \<open>user.id\<close> throws when sign-up resolved without a user. The inner \<open>catch\<close>
  logs \<open>e.message\<close>.
\<close>

definition register :: "jsval \<Rightarrow> jsval \<Rightarrow> jsval \<Rightarrow> jsval \<Rightarrow> jsval \<Rightarrow> (('s, 'z) world_scheme, envelope) js" where
  "register em password username firstName0 lastName0 =
     try_catch
       (bindJ getSupabase (\<lambda>sb0.
        case sb0 of
          None \<Rightarrow> ret (failure ''Supabase not initialized'')
        | Some sb \<Rightarrow>
            bindJ (call sb (SignUp em password)) (\<lambda>r.
            case r_error r of
              Some signUpError \<Rightarrow> ret (failure (msg signUpError))
            | None \<Rightarrow>
                (case r_user r of
                   None \<Rightarrow> throw (Error ''Cannot read properties of null'')
                 | Some u \<Rightarrow>
                     bindJ (call sb GetSession) (\<lambda>sr.
                     bindJ (call sb (From ''profiles''
                              [Insert [profile_row u em username (or_empty firstName0) (or_empty lastName0)]])) (\<lambda>pr.
                     case r_error pr of
                       Some profileError \<Rightarrow>
                         bindJ (try_catch
                                  (bindJ (call sb (AdminDeleteUser (uid u))) (\<lambda>_. ret ()))
                                  (\<lambda>e. case message_of e of Inl t \<Rightarrow> throw t | Inr m \<Rightarrow> ret ())) (\<lambda>_.
                         ret (failure (userMessage (msg profileError))))
                     | None \<Rightarrow> ret (succeeded\<lparr>user := Some (JObj (user_props u))\<rparr>)))))))
       (\<lambda>e. report e)"

definition clearCurrentUser :: "('z page_scheme, unit) js" where
  "clearCurrentUser =
     try_catch
       (bindJ (removeItem ''auth_user'') (\<lambda>_.
        bindJ (removeItem ''userProfile'') (\<lambda>_.
        dispatchEvent (Event ''authUserCleared'' None))))
       (\<lambda>e. ret ())"

definition logout :: "(('s, 'z) world_scheme, envelope) js" where
  "logout =
     try_catch
       (bindJ getSupabase (\<lambda>sb0.
        case sb0 of
          None \<Rightarrow> ret (failure ''Supabase not initialized'')
        | Some sb \<Rightarrow>
            bindJ (call sb SignOut) (\<lambda>r.
            case r_error r of
              Some e \<Rightarrow> throw (Error (msg e))
            | None \<Rightarrow>
                bindJ clearCurrentUser (\<lambda>_.
                bindJ (dispatchEvent (Event ''authUserCleared'' None)) (\<lambda>_.
                ret succeeded)))))
       (\<lambda>e. report e)"

definition incorrect_password :: string where
  "incorrect_password = ''Current password is incorrect. Please try again.''"

text \<open>The message reported for a failure of the update step of \<open>changePassword\<close>.\<close>

definition update_error_message :: "string \<Rightarrow> string" where
  "update_error_message m =
     (let errorMsg = (if m = [] then ''Failed to update password'' else m)
      in if str_includes (toLowerCase errorMsg) ''same''
         then ''New password must be different from your current password''
         else if str_includes (toLowerCase errorMsg) ''password''
         then ''Password update failed. Please ensure your password meets all requirements.''
         else if str_includes (toLowerCase errorMsg) ''network'' \<or> str_includes (toLowerCase errorMsg) ''connection''
         then ''Connection error. Please check your internet and try again.''
         else errorMsg)"

text \<open>The message reported by the \<open>catch\<close> block of \<open>changePassword\<close>.\<close>

definition unexpected_error_message :: "string \<Rightarrow> string" where
  "unexpected_error_message m =
     (let errorMsg = (if m \<noteq> [] then m else ''An unexpected error occurred'')
      in if str_includes (toLowerCase errorMsg) ''network'' \<or> str_includes (toLowerCase errorMsg) ''fetch''
         then ''Network connection error. Please check your internet connection.''
         else errorMsg)"

definition changePassword :: "jsval \<Rightarrow> jsval \<Rightarrow> (('s, 'z) world_scheme, envelope) js" where
  "changePassword currentPassword newPassword =
     try_catch
       (bindJ getSupabase (\<lambda>sb0.
        case sb0 of
          None \<Rightarrow> ret (failure ''Supabase not initialized'')
        | Some sb \<Rightarrow>
            bindJ (call sb GetUser) (\<lambda>r.
            case (r_error r, r_user r) of
              (None, Some u) \<Rightarrow>
                bindJ (call sb (SignInWithPassword (email_val u) currentPassword)) (\<lambda>sr.
                case r_error sr of
                  Some signInError \<Rightarrow> ret (failure incorrect_password)
                | None \<Rightarrow>
                    bindJ (call sb (UpdateUser newPassword)) (\<lambda>ur.
                    case r_error ur of
                      Some updateError \<Rightarrow> ret (failure (update_error_message (msg updateError)))
                    | None \<Rightarrow> ret (succeeded\<lparr>message := Some ''Password updated successfully''\<rparr>)))
            | _ \<Rightarrow> ret (failure_login ''Not authenticated. Please login again.''))))
       (\<lambda>e. case message_of e of
               Inl t \<Rightarrow> throw t
             | Inr m \<Rightarrow> ret (failure (unexpected_error_message (or_blank m))))"


section \<open>The second copy of the manager (\<open>src/unnamed/part_001\<close>)\<close>

text \<open>
  The repository holds a second \<open>AuthManager\<close>. Its \<open>getCurrentUser\<close>, \<open>getCurrentProfile\<close>,
  \<open>logout\<close>, \<open>clearCurrentUser\<close> and \<open>updateProfile\<close> are those above; \<open>register\<close> and
  \<open>changePassword\<close> differ.
\<close>

definition register_part001 :: "jsval \<Rightarrow> jsval \<Rightarrow> jsval \<Rightarrow> jsval \<Rightarrow> jsval \<Rightarrow> (('s, 'z) world_scheme, envelope) js" where
  "register_part001 em password username firstName0 lastName0 =
     try_catch
       (bindJ getSupabase (\<lambda>sb0.
        case sb0 of
          None \<Rightarrow> ret (failure ''Supabase not initialized'')
        | Some sb \<Rightarrow>
            bindJ (call sb (SignUp em password)) (\<lambda>r.
            case r_error r of
              Some signUpError \<Rightarrow> ret (failure (msg signUpError))
            | None \<Rightarrow>
                (case r_user r of
                   None \<Rightarrow> throw (Error ''Cannot read properties of null'')
                 | Some u \<Rightarrow>
                     bindJ (call sb (From ''profiles''
                              [Insert [profile_row u em username (or_empty firstName0) (or_empty lastName0)]])) (\<lambda>pr.
                     case r_error pr of
                       Some profileError \<Rightarrow> ret (failure (msg profileError))
                     | None \<Rightarrow> ret (succeeded\<lparr>user := Some (JObj (user_props u))\<rparr>))))))
       (\<lambda>e. report e)"

definition changePassword_part001 :: "jsval \<Rightarrow> jsval \<Rightarrow> (('s, 'z) world_scheme, envelope) js" where
  "changePassword_part001 currentPassword newPassword =
     try_catch
       (bindJ getSupabase (\<lambda>sb0.
        case sb0 of
          None \<Rightarrow> ret (failure ''Supabase not initialized'')
        | Some sb \<Rightarrow>
            bindJ getCurrentUser (\<lambda>user0.
            case user0 of
              None \<Rightarrow> ret (failure_login ''Not authenticated'')
            | Some u \<Rightarrow>
                bindJ (call sb (SignInWithPassword (email_val u) currentPassword)) (\<lambda>sr.
                case r_error sr of
                  Some signInError \<Rightarrow> ret (failure ''Current password is incorrect'')
                | None \<Rightarrow>
                    bindJ (call sb (UpdateUser newPassword)) (\<lambda>ur.
                    case r_error ur of
                      Some updateError \<Rightarrow> ret (failure (msg updateError))
                    | None \<Rightarrow> ret succeeded)))))
       (\<lambda>e. report e)"

section \<open>The API Facade: \<open>window.API\<close>\<close>




definition getMetrics :: "(('s, 'z) world_scheme, envelope) js" where
  "getMetrics =
     try_catch
       (bindJ getCurrentUser (\<lambda>user0.
        case user0 of
          None \<Rightarrow> ret (failure_login ''Not authenticated'')
        | Some u \<Rightarrow>
            bindJ getSupabase (\<lambda>sb0.
            case sb0 of
              None \<Rightarrow> ret (failure ''Supabase not initialized'')
            | Some sb \<Rightarrow>
                bindJ (call sb (From ''metrics''
                         [Select ''*'', Eq ''user_id'' (JStr (uid u)), Order ''created_at'' False])) (\<lambda>r.
                case r_error r of
                  Some e \<Rightarrow> ret (failure (msg e))
                | None \<Rightarrow> ret (succeeded\<lparr>data := Some (r_data r)\<rparr>)))))
       (\<lambda>e. report e)"

definition addMetric :: "jsval \<Rightarrow> (('s, 'z) world_scheme, envelope) js" where
  "addMetric metricData =
     try_catch
       (bindJ getCurrentUser (\<lambda>user0.
        case user0 of
          None \<Rightarrow> ret (failure_login ''Not authenticated'')
        | Some u \<Rightarrow>
            bindJ getSupabase (\<lambda>sb0.
            case sb0 of
              None \<Rightarrow> ret (failure ''Supabase not initialized'')
            | Some sb \<Rightarrow>
                bindJ (read_prop metricData ''category'') (\<lambda>category.
                bindJ (read_prop metricData ''value'') (\<lambda>val.
                bindJ (read_prop metricData ''description'') (\<lambda>description.
                bindJ (call sb (From ''metrics''
                         [Insert [JObj [(''user_id'', JStr (uid u)), (''category'', category),
                                        (''value'', val), (''description'', description)]],
                          Select []])) (\<lambda>r.
                case r_error r of
                  Some e \<Rightarrow> ret (failure (msg e))
                | None \<Rightarrow>
                    (case first_elem (r_data r) of
                       Inl e \<Rightarrow> throw e
                     | Inr d \<Rightarrow> ret (succeeded\<lparr>data := Some d\<rparr>)))))))))
       (\<lambda>e. report e)"

definition deleteMetric :: "jsval \<Rightarrow> (('s, 'z) world_scheme, envelope) js" where
  "deleteMetric metricId =
     try_catch
       (bindJ getCurrentUser (\<lambda>user0.
        case user0 of
          None \<Rightarrow> ret (failure_login ''Not authenticated'')
        | Some u \<Rightarrow>
            bindJ getSupabase (\<lambda>sb0.
            case sb0 of
              None \<Rightarrow> ret (failure ''Supabase not initialized'')
            | Some sb \<Rightarrow>
                bindJ (call sb (From ''metrics''
                         [Delete, Eq ''id'' metricId, Eq ''user_id'' (JStr (uid u))])) (\<lambda>r.
                case r_error r of
                  Some e \<Rightarrow> ret (failure (msg e))
                | None \<Rightarrow> ret succeeded))))
       (\<lambda>e. report e)"

section \<open>The Navigation Component: \<open>Navigation\<close>\<close>

text \<open>
  The fields of the \<open>Navigation\<close> object that the name resolution reads and writes: \<open>user\<close>,
  initially \<open>null\<close>, and \<open>displayName\<close>, undefined until it is first assigned.
\<close>

record nav =
  nav_user :: "auth_user option"
  displayName :: "string option"

definition Navigation :: nav where
  "Navigation = \<lparr>nav_user = None, displayName = None\<rparr>"

definition isAuthenticated :: "nav \<Rightarrow> bool" where
  "isAuthenticated n = (nav_user n \<noteq> None)"

text \<open>
  A column of a profile row, read for display. The columns of \<open>profiles\<close> are text: a field
  holds a string or nothing, and nothing and the empty string are both falsy.
\<close>

definition text_field :: "jsval \<Rightarrow> string \<Rightarrow> string option" where
  "text_field p k = (case get_prop p k of Inr (JStr s) \<Rightarrow> Some s | _ \<Rightarrow> None)"

text \<open>\<open>this.user && this.user.email\<close>\<close>

definition user_email :: "nav \<Rightarrow> string option" where
  "user_email n = (case nav_user n of None \<Rightarrow> None | Some u \<Rightarrow> email u)"

text \<open>The name taken from a fetched profile (lines 74 to 82); the name stays as it is when nothing applies.\<close>

definition name_from_profile :: "nav \<Rightarrow> jsval \<Rightarrow> nav" where
  "name_from_profile n profile =
     (if truthy_text (text_field profile ''first_name'') \<and> truthy_text (text_field profile ''last_name'')
      then n\<lparr>displayName := Some (text_of (text_field profile ''first_name'') @ '' '' @
                                  text_of (text_field profile ''last_name''))\<rparr>
      else if truthy_text (text_field profile ''first_name'')
      then n\<lparr>displayName := text_field profile ''first_name''\<rparr>
      else if truthy_text (text_field profile ''username'')
      then n\<lparr>displayName := text_field profile ''username''\<rparr>
      else if truthy_text (user_email n)
      then n\<lparr>displayName := Some (local_part (text_of (user_email n)))\<rparr>
      else n)"

text \<open>
  \<open>loadUserProfileNameData\<close>. \<open>am\<close> tells whether the \<open>AuthManager\<close> script is loaded
  (\<open>typeof AuthManager !== 'undefined'\<close>).
\<close>

definition loadUserProfileNameData :: "bool \<Rightarrow> nav \<Rightarrow> (('s, 'z) world_scheme, nav) js" where
  "loadUserProfileNameData am n =
     try_catch
       (bindJ (getItem ''mindspend_firstName'') (\<lambda>storedFirstName.
        bindJ (getItem ''mindspend_lastName'') (\<lambda>storedLastName.
        bindJ (getItem ''mindspend_username'') (\<lambda>storedUsername.
        if truthy_text storedFirstName \<and> truthy_text storedLastName
        then ret (n\<lparr>displayName := Some (text_of storedFirstName @ '' '' @ text_of storedLastName)\<rparr>)
        else if truthy_text storedFirstName then ret (n\<lparr>displayName := storedFirstName\<rparr>)
        else if truthy_text storedUsername then ret (n\<lparr>displayName := storedUsername\<rparr>)
        else
          bindJ (if isAuthenticated n \<and> am then getCurrentProfile else ret JNull) (\<lambda>profile.
          if isAuthenticated n \<and> am \<and> truthy profile then ret (name_from_profile n profile)
          else if truthy_text (user_email n)
          then ret (n\<lparr>displayName := Some (local_part (text_of (user_email n)))\<rparr>)
          else ret (n\<lparr>displayName := Some ''Guest''\<rparr>))))))
       (\<lambda>e. ret (n\<lparr>displayName := Some ''Guest''\<rparr>))"

text \<open>The two shapes of the generated bar: the user menu showing a name, or the sign-in button.\<close>

datatype nav_html = UserMenu string | SignInButton

text \<open>\<open>userName\<close> of \<open>generateNavHTML\<close> (line 138).\<close>

definition userName :: "nav \<Rightarrow> string" where
  "userName n =
     (if truthy_text (displayName n) then text_of (displayName n)
      else if isAuthenticated n \<and> truthy_text (user_email n)
      then local_part (text_of (user_email n))
      else ''Guest'')"

definition generateNavHTML :: "nav \<Rightarrow> nav_html" where
  "generateNavHTML n = (if isAuthenticated n then UserMenu (userName n) else SignInButton)"

text \<open>
  \<open>init\<close>, up to the injection of the generated bar into a page that has none yet: the name is
  loaded first, then the user, then the bar is generated.
\<close>

definition init :: "bool \<Rightarrow> nav \<Rightarrow> (('s, 'z) world_scheme, nav \<times> nav_html) js" where
  "init am n =
     bindJ (loadUserProfileNameData am n) (\<lambda>n1.
     bindJ (if am then bindJ getCurrentUser (\<lambda>u. ret (n1\<lparr>nav_user := u\<rparr>)) else ret n1) (\<lambda>n2.
     ret (n2, generateNavHTML n2)))"

text \<open>\<open>localStorage.clear()\<close>\<close>

definition clear_storage :: "('z page_scheme, unit) js" where
  "clear_storage w = (Inr (), w\<lparr>localStorage := []\<rparr>)"

text \<open>
  \<open>confirmLogout\<close>, the handler of the logout button. Closing the dialog and the redirect to
  the login page, which ends both branches, are not modelled.
\<close>

definition confirmLogout :: "bool \<Rightarrow> (('s, 'z) world_scheme, unit) js" where
  "confirmLogout am =
     try_catch
       (bindJ (if am then bindJ logout (\<lambda>result. ret ()) else ret ()) (\<lambda>_.
        clear_storage))
       (\<lambda>e. ret ())"

section \<open>Sessions, caches and concrete collaborators\<close>

text \<open>
  The user the collaborator reports for the current session: what \<open>auth.getUser()\<close> resolves
  to now, with no user when the client is missing, the call rejects or it reports an error.
\<close>

definition session_user :: "('s, 'z) world_scheme \<Rightarrow> auth_user option" where
  "session_user w =
     (case supabase w of
        None \<Rightarrow> None
      | Some sb \<Rightarrow>
          (case fst (sb (remote w) GetUser) of
             Inl e \<Rightarrow> None
           | Inr r \<Rightarrow> (case r_error r of Some e \<Rightarrow> None | None \<Rightarrow> r_user r)))"

text \<open>The state after the session lookup: the call is recorded, the collaborator has moved on.\<close>

definition after_lookup :: "('s, 'z) world_scheme \<Rightarrow> ('s, 'z) world_scheme" where
  "after_lookup w =
     (case supabase w of
        None \<Rightarrow> w
      | Some sb \<Rightarrow> w\<lparr>remote := snd (sb (remote w) GetUser), calls := calls w @ [GetUser]\<rparr>)"

text \<open>The requests an operation issued, given the states before and after it.\<close>

definition issued :: "('s, 'z) world_scheme \<Rightarrow> ('s, 'z) world_scheme \<Rightarrow> request list" where
  "issued w w' = drop (length (calls w)) (calls w')"

text \<open>
  A request on the \<open>metrics\<close> table is scoped by the user \<open>i\<close> when it filters on
  \<open>user_id = i\<close> or inserts only rows whose \<open>user_id\<close> is \<open>i\<close>.
\<close>

fun row_owner :: "jsval \<Rightarrow> jsval" where
  "row_owner (JObj kvs) = (case map_of kvs ''user_id'' of None \<Rightarrow> JUndefined | Some v \<Rightarrow> v)"
| "row_owner v = JUndefined"

fun step_scoped :: "string \<Rightarrow> step \<Rightarrow> bool" where
  "step_scoped i (Eq k v) = (k = ''user_id'' \<and> v = JStr i)"
| "step_scoped i (Insert rows) = (rows \<noteq> [] \<and> list_all (\<lambda>row. row_owner row = JStr i) rows)"
| "step_scoped i s = False"

fun scoped_by :: "string \<Rightarrow> request \<Rightarrow> bool" where
  "scoped_by i (From t steps) = list_ex (step_scoped i) steps"
| "scoped_by i rq = False"

text \<open>The keys of the cached identity, profile and display fields.\<close>

definition identity_keys :: "string list" where
  "identity_keys =
     [''auth_user'', ''userProfile'', ''currentUser'',
      ''mindspend_firstName'', ''mindspend_lastName'', ''mindspend_username'']"

definition cache_empty :: "'z page_scheme \<Rightarrow> bool" where
  "cache_empty w = list_all (\<lambda>k. map_of (localStorage w) k = None) identity_keys"

definition anonymous :: "('s, 'z) world_scheme \<Rightarrow> bool" where
  "anonymous w = (session_user w = None \<and> cache_empty w)"

text \<open>
  Concrete collaborators for the examples. \<open>scripted u errs\<close> reports the user \<open>u\<close> and, for
  each request, the error \<open>errs\<close> gives; it keeps no state.
\<close>

definition scripted :: "auth_user option \<Rightarrow> (request \<Rightarrow> err option) \<Rightarrow> unit client" where
  "scripted u errs s rq =
     (Inr \<lparr>r_user = u, r_session = (u \<noteq> None), r_data = JNull, r_error = errs rq\<rparr>, s)"


definition bob :: auth_user where
  "bob = \<lparr>uid = ''u1'', email = Some ''bob@example.com''\<rparr>"

definition no_rows :: err where
  "no_rows = \<lparr>code = ''PGRST116'', msg = ''JSON object requested, multiple (or no) rows returned''\<rparr>"

definition browser :: "(string \<times> string) list \<Rightarrow> unit client option \<Rightarrow> unit world" where
  "browser items sb =
     \<lparr>JSON_stringify = literal_stringify, JSON_parse = literal_parse,
      localStorage = items, quota = 5000, events = [],
      supabase = sb, remote = (), calls = []\<rparr>"

definition no_errors :: "request \<Rightarrow> err option" where
  "no_errors rq = None"

definition signed_out :: "unit world" where
  "signed_out = browser [] (Some (scripted None no_errors))"

definition no_client :: "unit world" where
  "no_client = browser [] None"

definition cached_items :: "(string \<times> string) list" where
  "cached_items =
     [(''auth_user'', ''true''), (''userProfile'', ''true''), (''currentUser'', ''true''),
      (''mindspend_firstName'', ''Bob''), (''mindspend_lastName'', ''Builder''),
      (''mindspend_username'', ''bob'')]"

definition failed_to_fetch :: err where
  "failed_to_fetch = \<lparr>code = ''0'', msg = ''Failed to fetch''\<rparr>"

definition sign_out_fails :: "request \<Rightarrow> err option" where
  "sign_out_fails rq = (case rq of SignOut \<Rightarrow> Some failed_to_fetch | _ \<Rightarrow> None)"

definition invalid_credentials :: err where
  "invalid_credentials = \<lparr>code = ''invalid_credentials'', msg = ''Invalid login credentials''\<rparr>"

definition sign_in_fails :: "request \<Rightarrow> err option" where
  "sign_in_fails rq = (case rq of SignInWithPassword e p \<Rightarrow> Some invalid_credentials | _ \<Rightarrow> None)"

definition policy_violation :: err where
  "policy_violation =
     \<lparr>code = ''42501'', msg = ''new row violates row-level security policy for table profiles''\<rparr>"

definition insert_fails :: "request \<Rightarrow> err option" where
  "insert_fails rq = (case rq of From t steps \<Rightarrow> Some policy_violation | _ \<Rightarrow> None)"

definition no_profile :: "request \<Rightarrow> err option" where
  "no_profile rq = (case rq of From t steps \<Rightarrow> Some no_rows | _ \<Rightarrow> None)"

definition cached_session :: "unit world" where
  "cached_session = browser cached_items (Some (scripted (Some bob) no_errors))"

definition cached_offline :: "unit world" where
  "cached_offline = browser cached_items (Some (scripted (Some bob) sign_out_fails))"

definition wrong_password :: "unit world" where
  "wrong_password = browser [] (Some (scripted (Some bob) sign_in_fails))"

definition policy_blocks :: "unit world" where
  "policy_blocks = browser [] (Some (scripted (Some bob) insert_fails))"

definition bob_without_profile :: "unit world" where
  "bob_without_profile = browser [] (Some (scripted (Some bob) no_profile))"

definition bob_row :: jsval where
  "bob_row = JObj [(''id'', JStr ''u1''), (''email'', JStr ''bob@example.com''),
                   (''username'', JStr ''bob''), (''first_name'', JStr []), (''last_name'', JStr [])]"

text \<open>
  A collaborator that keeps the \<open>metrics\<close> table as a list of rows \<open>(id, user_id)\<close> and a
  signed-in user: a delete removes the rows that match every filter, and reports no error
  whether or not a row matched.
\<close>

fun row_matches :: "string \<times> string \<Rightarrow> step \<Rightarrow> bool" where
  "row_matches (i, owner) (Eq k v) =
     (if k = ''id'' then v = JStr i else if k = ''user_id'' then v = JStr owner else False)"
| "row_matches row s = True"

definition metrics_client :: "auth_user option \<Rightarrow> (string \<times> string) list client" where
  "metrics_client u rows rq =
     (case rq of
        From t steps \<Rightarrow>
          (if t = ''metrics'' \<and> Delete \<in> set steps
           then (Inr \<lparr>r_user = None, r_session = False, r_data = JNull, r_error = None\<rparr>,
                 filter (\<lambda>row. \<not> list_all (row_matches row) steps) rows)
           else (Inr \<lparr>r_user = None, r_session = False, r_data = JArr [], r_error = None\<rparr>, rows))
      | _ \<Rightarrow> (Inr \<lparr>r_user = u, r_session = (u \<noteq> None), r_data = JNull, r_error = None\<rparr>, rows))"

definition metrics_browser :: "(string \<times> string) list \<Rightarrow> (string \<times> string) list world" where
  "metrics_browser rows =
     \<lparr>JSON_stringify = literal_stringify, JSON_parse = literal_parse,
      localStorage = [], quota = 5000, events = [],
      supabase = Some (metrics_client (Some bob)), remote = rows, calls = []\<rparr>"

definition two_rows :: "(string \<times> string) list" where
  "two_rows = [(''m1'', ''u1''), (''m2'', ''u2'')]"

text \<open>A metric that carries a \<open>user_id\<close> of the caller's choosing.\<close>

definition spoofed :: jsval where
  "spoofed = JObj [(''user_id'', JStr ''u2''), (''category'', JStr ''food''), (''value'', JNum 12.5),
                   (''description'', JStr ''lunch'')]"



text \<open>
  A request is made on behalf of the session when it is the session lookup itself or is
  scoped by the user that the lookup reports.
\<close>

definition by_session :: "('s, 'z) world_scheme \<Rightarrow> request \<Rightarrow> bool" where
  "by_session w rq =
     (rq = GetUser \<or> (case session_user w of None \<Rightarrow> False | Some u \<Rightarrow> scoped_by (uid u) rq))"



text \<open>The sign-out call rejects with \<open>undefined\<close> or \<open>null\<close>.\<close>

definition sign_out_unreadable :: "('s, 'z) world_scheme \<Rightarrow> bool" where
  "sign_out_unreadable w =
     (case supabase w of
        None \<Rightarrow> False
      | Some sb \<Rightarrow> fst (sb (remote w) SignOut) = Inl Nullish)"

text \<open>
  Concrete collaborators that fail. \<open>offline_at p\<close> rejects the requests that \<open>p\<close> selects
  with a network error and answers the others as \<open>scripted (Some bob) no_errors\<close> does;
  \<open>rejects_undefined\<close> does the same but rejects with \<open>undefined\<close>.
\<close>

definition offline_at :: "(request \<Rightarrow> bool) \<Rightarrow> unit client" where
  "offline_at p s rq =
     (if p rq then (Inl (Error ''Failed to fetch''), s) else scripted (Some bob) no_errors s rq)"

definition rejects_undefined :: "(request \<Rightarrow> bool) \<Rightarrow> unit client" where
  "rejects_undefined p s rq =
     (if p rq then (Inl Nullish, s) else scripted (Some bob) no_errors s rq)"

fun is_sign_in :: "request \<Rightarrow> bool" where
  "is_sign_in (SignInWithPassword e p) = True"
| "is_sign_in rq = False"

fun is_update_user :: "request \<Rightarrow> bool" where
  "is_update_user (UpdateUser p) = True"
| "is_update_user rq = False"

fun is_sign_out :: "request \<Rightarrow> bool" where
  "is_sign_out SignOut = True"
| "is_sign_out rq = False"

fun is_table :: "request \<Rightarrow> bool" where
  "is_table (From t steps) = True"
| "is_table rq = False"

definition sign_in_offline :: "unit world" where
  "sign_in_offline = browser [] (Some (offline_at is_sign_in))"

definition update_offline :: "unit world" where
  "update_offline = browser [] (Some (offline_at is_update_user))"

definition sign_out_undefined :: "unit world" where
  "sign_out_undefined = browser cached_items (Some (rejects_undefined is_sign_out))"

definition table_undefined :: "unit world" where
  "table_undefined = browser [] (Some (rejects_undefined is_table))"

text \<open>An update step that answers with the words of a failed verification.\<close>

definition says_incorrect :: err where
  "says_incorrect = \<lparr>code = ''400'', msg = ''Current password is incorrect''\<rparr>"

definition update_fails :: "request \<Rightarrow> err option" where
  "update_fails rq = (case rq of UpdateUser p \<Rightarrow> Some says_incorrect | _ \<Rightarrow> None)"

definition update_refused :: "unit world" where
  "update_refused = browser [] (Some (scripted (Some bob) update_fails))"

section \<open>Properties of the Local Cache Store\<close>

lemma getItem_after_update:
  "map_of (AList.update k v items) k = Some v"
  by (simp add: update_conv')

lemma save_stores:
  assumes "JSON_stringify w v = Inr s"
    and "storage_accepts w KEY s"
  shows "save v w =
           (Inr (), w\<lparr>localStorage := AList.update KEY s (localStorage w),
                      events := events w @ [Event ''storageUpdated'' (Some v)]\<rparr>)"
  using assms
  by (simp add: save_def try_catch_def bindJ_def stringify_def setItem_def dispatchEvent_def)

lemma save_refused:
  assumes "\<not> save_fits w v"
  shows "save v w = (Inr (), w)"
  using assms
  by (simp add: save_fits_def save_def try_catch_def bindJ_def stringify_def setItem_def ret_def
      split: sum.splits)

lemma load_reads:
  assumes "map_of (localStorage w) KEY = Some s" and "s \<noteq> []"
  shows "fst (load w) = (case JSON_parse w s of Inl e \<Rightarrow> Inr JNull | Inr v \<Rightarrow> Inr v)"
  using assms
  by (simp add: load_def try_catch_def bindJ_def getItem_def parse_def ret_def split: sum.splits)

lemma load_nothing:
  assumes "map_of (localStorage w) KEY = None"
  shows "fst (load w) = Inr JNull"
  using assms
  by (simp add: load_def try_catch_def bindJ_def getItem_def ret_def)

lemma save_then_load_accepted:
  assumes "json_serializable w v"
    and "save_fits w v"
  shows "fst (load (snd (save v w))) = Inr v"
proof -
  from assms(2) obtain s where s: "JSON_stringify w v = Inr s"
    and fits: "storage_accepts w KEY s"
    by (auto simp: save_fits_def split: sum.splits)
  from assms(1) s have ne: "s \<noteq> []" and rt: "JSON_parse w s = Inr v"
    by (simp_all add: json_serializable_def)
  let ?w' = "snd (save v w)"
  have stored: "map_of (localStorage ?w') KEY = Some s"
    by (simp add: save_stores [OF s fits] getItem_after_update)
  have same: "JSON_parse ?w' = JSON_parse w"
    by (simp add: save_stores [OF s fits])
  show ?thesis
    by (simp add: load_reads [OF stored ne] same rt)
qed

lemma clear_then_load:
  "fst (load (snd (clear w))) = Inr JNull \<and> \<not> exists (snd (clear w))"
  by (simp add: clear_def load_def exists_def try_catch_def bindJ_def removeItem_def
      dispatchEvent_def getItem_def ret_def delete_conv')

text \<open>
  C2 (as amended). For every JSON-serializable value \<open>v\<close>, \<open>save(v)\<close> followed by \<open>load()\<close>
  in the same tab returns \<open>v\<close>, provided the storage accepts the write. When the write is not
  accepted (\<open>setItem\<close> throws because the quota is exceeded or the storage is disabled, or
  the value cannot be serialized), \<open>save\<close> swallows the exception: it returns normally and
  changes nothing, so \<open>load\<close> returns what it returned before the \<open>save\<close>, which is \<open>null\<close> when
  nothing was stored.
\<close>

theorem save_then_load:
  "(json_serializable w v \<and> save_fits w v \<longrightarrow> fst (load (snd (save v w))) = Inr v)
   \<and> (\<not> save_fits w v \<longrightarrow>
        save v w = (Inr (), w) \<and> fst (load (snd (save v w))) = fst (load w))
   \<and> (map_of (localStorage w) KEY = None \<longrightarrow> fst (load w) = Inr JNull)"
  by (simp add: save_then_load_accepted save_refused load_nothing)

theorem save_then_load_witness:
  "json_serializable (demo_page 100) (JBool True)
   \<and> save_fits (demo_page 100) (JBool True)
   \<and> fst (load (snd (save (JBool True) (demo_page 100)))) = Inr (JBool True)
   \<and> \<not> save_fits (demo_page 0) (JBool True)
   \<and> save (JBool True) (demo_page 0) = (Inr (), demo_page 0)
   \<and> fst (load (snd (save (JBool True) (demo_page 0)))) = Inr JNull"
proof -
  have a: "json_serializable (demo_page 100) (JBool True)"
    by (simp add: json_serializable_def demo_page_def literal_parse_def)
  have b: "save_fits (demo_page 100) (JBool True)"
    by (simp add: save_fits_def storage_accepts_def demo_page_def storage_size_def KEY_def)
  have c: "\<not> save_fits (demo_page 0) (JBool True)"
    by (simp add: save_fits_def storage_accepts_def demo_page_def storage_size_def KEY_def)
  have d: "map_of (localStorage (demo_page 0)) KEY = None"
    by (simp add: demo_page_def)
  show ?thesis
    using a b c d save_then_load [of "demo_page 100" "JBool True"]
      save_then_load [of "demo_page 0" "JBool True"]
    by simp
qed

text \<open>
  The claim as stated fails when the storage refuses the write (no room left, or storage
  disabled): \<open>true\<close> is JSON-serializable, \<open>save(true)\<close> returns normally, and \<open>load()\<close>
  returns \<open>null\<close>.
\<close>

theorem save_then_load_counterexample:
  "json_serializable (demo_page 0) (JBool True)
   \<and> fst (save (JBool True) (demo_page 0)) = Inr ()
   \<and> fst (load (snd (save (JBool True) (demo_page 0)))) = Inr JNull
   \<and> fst (load (snd (save (JBool True) (demo_page 0)))) \<noteq> Inr (JBool True)"
  by (simp add: json_serializable_def demo_page_def literal_parse_def save_def load_def
      try_catch_def bindJ_def stringify_def setItem_def getItem_def ret_def
      storage_accepts_def storage_size_def KEY_def)

text \<open>
  C8 (as amended). A storage-change notification for the store's key whose new value is
  JSON text (or \<open>null\<close>, for a removal) makes the listener emit exactly one
  \<open>storageUpdated\<close> broadcast carrying the parsed new value; a notification for any other
  key (or for no key) emits nothing and changes nothing. When the notification is for the
  store's key and the new value is not JSON text, \<open>JSON.parse\<close> throws inside the listener,
  which has no \<open>try\<close>: the exception leaves it, nothing is broadcast and nothing changes.
\<close>

theorem storage_notification_broadcast:
  "(key e = Some KEY \<and> JSON_parse w (text_of (newValue e)) = Inr v
      \<longrightarrow> on_storage e w = (Inr (), w\<lparr>events := events w @ [Event ''storageUpdated'' (Some v)]\<rparr>))
   \<and> (key e \<noteq> Some KEY \<longrightarrow> on_storage e w = (Inr (), w))
   \<and> (key e = Some KEY \<and> JSON_parse w (text_of (newValue e)) = Inl x
      \<longrightarrow> on_storage e w = (Inl x, w))"
  by (simp add: on_storage_def bindJ_def parse_def dispatchEvent_def ret_def)

theorem storage_notification_broadcast_witness:
  "on_storage \<lparr>key = Some KEY, newValue = Some ''true''\<rparr> (demo_page 100)
     = (Inr (), (demo_page 100)\<lparr>events := [Event ''storageUpdated'' (Some (JBool True))]\<rparr>)
   \<and> on_storage \<lparr>key = Some ''auth_user'', newValue = Some ''true''\<rparr> (demo_page 100)
     = (Inr (), demo_page 100)
   \<and> on_storage \<lparr>key = Some KEY, newValue = Some ''{''\<rparr> (demo_page 100)
     = (Inl (Error ''SyntaxError: Unexpected token''), demo_page 100)"
proof -
  have p: "JSON_parse (demo_page 100) ''true'' = Inr (JBool True)"
    and q: "JSON_parse (demo_page 100) ''{'' = Inl (Error ''SyntaxError: Unexpected token'')"
    by (simp_all add: demo_page_def literal_parse_def)
  have k: "Some ''auth_user'' \<noteq> Some KEY"
    by (simp add: KEY_def)
  have e: "events (demo_page 100) = []"
    by (simp add: demo_page_def)
  show ?thesis
    using storage_notification_broadcast
            [of "\<lparr>key = Some KEY, newValue = Some ''true''\<rparr>" "demo_page 100" "JBool True"
                "Error ''SyntaxError: Unexpected token''"]
          storage_notification_broadcast
            [of "\<lparr>key = Some ''auth_user'', newValue = Some ''true''\<rparr>" "demo_page 100" "JBool True"
                "Error ''SyntaxError: Unexpected token''"]
          storage_notification_broadcast
            [of "\<lparr>key = Some KEY, newValue = Some ''{''\<rparr>" "demo_page 100" "JBool True"
                "Error ''SyntaxError: Unexpected token''"]
          p q k e
    by simp
qed

text \<open>
  The claim as stated fails for a notification whose new value is not JSON text. The text
  \<open>undefined\<close> is what \<open>save(undefined)\<close> stores under the key; when another tab is notified
  of it, \<open>JSON.parse\<close> throws in the listener, the exception leaves it, and no broadcast is
  emitted.
\<close>

theorem storage_notification_counterexample:
  "map_of (localStorage (snd (save JUndefined (demo_page 100)))) KEY = Some ''undefined''
   \<and> on_storage \<lparr>key = Some KEY, newValue = Some ''undefined''\<rparr> (demo_page 100)
     = (Inl (Error ''SyntaxError: Unexpected token''), demo_page 100)
   \<and> events (snd (on_storage \<lparr>key = Some KEY, newValue = Some ''undefined''\<rparr> (demo_page 100))) = []"
  by (simp add: on_storage_def bindJ_def parse_def demo_page_def literal_parse_def
      save_def try_catch_def stringify_def setItem_def dispatchEvent_def
      storage_accepts_def storage_size_def KEY_def)

section \<open>Properties of the \<open>catch\<close> blocks and of the session lookup\<close>

lemmas js_defs = ret_def throw_def bindJ_def try_catch_def call_def getSupabase_def


lemmas demo_defs = browser_def scripted_def no_errors_def

lemma report_Error: "report (Error m) w = (Inr (failure m), w)"
  by (simp add: report_def ret_def failure_def error_envelope_def)

lemma report_NoMessage: "report NoMessage w = (Inr (error_envelope None), w)"
  by (simp add: report_def ret_def)

lemma report_Nullish: "report Nullish w = (Inl (Error ''Cannot read properties of undefined''), w)"
  by (simp add: report_def throw_def)

lemma report_state: "snd (report e w) = w"
  by (cases e) (simp_all add: report_Error report_NoMessage report_Nullish)

lemma report_returns: "e \<noteq> Nullish \<Longrightarrow> \<exists>env. report e w = (Inr env, w)"
  by (cases e) (simp_all add: report_Error report_NoMessage)



lemma getCurrentUser_eq: "getCurrentUser w = (Inr (session_user w), after_lookup w)"
  by (auto simp add: getCurrentUser_def js_defs session_user_def after_lookup_def
      split: option.splits sum.splits prod.splits)

lemma supabase_after_lookup: "supabase (after_lookup w) = supabase w"
  by (simp add: after_lookup_def split: option.splits)

lemma calls_after_lookup:
  "calls (after_lookup w) = calls w @ (case supabase w of None \<Rightarrow> [] | Some sb \<Rightarrow> [GetUser])"
  by (simp add: after_lookup_def split: option.splits)






section \<open>Properties of the API Facade without a session\<close>

























text \<open>
  A table request that rejects with \<open>undefined\<close> leaves \<open>getMetrics\<close> as a rejection: the
  \<open>catch\<close> block throws when it reads \<open>e.message\<close>.
\<close>

lemma getMetrics_rejection_escapes:
  "fst (getMetrics table_undefined) = Inl (Error ''Cannot read properties of undefined'')"
  by (simp add: getMetrics_def js_defs getCurrentUser_eq session_user_def after_lookup_def
      table_undefined_def rejects_undefined_def demo_defs report_Nullish)

section \<open>Properties of \<open>logout\<close>\<close>

lemma clearCurrentUser_eq:
  "clearCurrentUser w =
     (Inr (), w\<lparr>localStorage := AList.delete ''userProfile'' (AList.delete ''auth_user'' (localStorage w)),
               events := events w @ [Event ''authUserCleared'' None]\<rparr>)"
  by (simp add: clearCurrentUser_def try_catch_def bindJ_def removeItem_def dispatchEvent_def)

lemma logout_no_client:
  "supabase w = None \<Longrightarrow> logout w = (Inr (failure ''Supabase not initialized''), w)"
  by (simp add: logout_def js_defs)

lemma logout_signed_out:
  assumes "supabase w = Some sb" and "sb (remote w) SignOut = (Inr r, s')" and "r_error r = None"
  shows "logout w =
     (Inr succeeded,
      w\<lparr>remote := s', calls := calls w @ [SignOut],
        localStorage := AList.delete ''userProfile'' (AList.delete ''auth_user'' (localStorage w)),
        events := events w @ [Event ''authUserCleared'' None, Event ''authUserCleared'' None]\<rparr>)"
  using assms
  by (simp add: logout_def js_defs clearCurrentUser_eq dispatchEvent_def)

lemma logout_sign_out_error:
  assumes "supabase w = Some sb" and "sb (remote w) SignOut = (Inr r, s')" and "r_error r = Some e"
  shows "logout w = (Inr (failure (msg e)), w\<lparr>remote := s', calls := calls w @ [SignOut]\<rparr>)"
  using assms
  by (simp add: logout_def js_defs report_Error)

lemma logout_sign_out_rejected:
  assumes "supabase w = Some sb" and "sb (remote w) SignOut = (Inl x, s')"
  shows "logout w = report x (w\<lparr>remote := s', calls := calls w @ [SignOut]\<rparr>)"
  using assms
  by (simp add: logout_def js_defs)

text \<open>\<open>logout\<close> rejects exactly when the sign-out call rejects with \<open>undefined\<close> or \<open>null\<close>.\<close>

lemma logout_returns:
  assumes "\<not> sign_out_unreadable w"
  shows "\<exists>env w'. logout w = (Inr env, w')"
proof (cases "supabase w")
  case None
  then show ?thesis by (simp add: logout_no_client)
next
  case (Some sb)
  obtain x s' where x: "sb (remote w) SignOut = (x, s')" by (cases "sb (remote w) SignOut")
  let ?w' = "w\<lparr>remote := s', calls := calls w @ [SignOut]\<rparr>"
  show ?thesis
  proof (cases x)
    case (Inl a)
    with assms Some x have "a \<noteq> Nullish"
      by (simp add: sign_out_unreadable_def)
    then have "\<exists>env. report a ?w' = (Inr env, ?w')"
      by (rule report_returns)
    moreover have "logout w = report a ?w'"
      using Some x Inl by (simp add: logout_sign_out_rejected)
    ultimately show ?thesis by metis
  next
    case (Inr r)
    show ?thesis
    proof (cases "r_error r")
      case None
      with \<open>supabase w = Some sb\<close> x Inr show ?thesis
        by (simp add: logout_signed_out)
    next
      case (Some e)
      with \<open>supabase w = Some sb\<close> x Inr show ?thesis
        by (simp add: logout_sign_out_error)
    qed
  qed
qed

lemma logout_rejects:
  assumes "sign_out_unreadable w"
  shows "fst (logout w) = Inl (Error ''Cannot read properties of undefined'')
         \<and> localStorage (snd (logout w)) = localStorage w"
proof -
  from assms obtain sb where sb: "supabase w = Some sb"
    and r: "fst (sb (remote w) SignOut) = Inl Nullish"
    by (auto simp add: sign_out_unreadable_def split: option.splits)
  obtain s' where "sb (remote w) SignOut = (Inl Nullish, s')"
    using r by (cases "sb (remote w) SignOut") simp
  with sb show ?thesis
    by (simp add: logout_sign_out_rejected report_Nullish)
qed

lemma confirmLogout_clears:
  assumes "\<not> (am \<and> sign_out_unreadable w)"
  shows "localStorage (snd (confirmLogout am w)) = []"
proof (cases am)
  case True
  with assms have "\<not> sign_out_unreadable w" by simp
  from logout_returns [OF this] True show ?thesis
    by (auto simp add: confirmLogout_def try_catch_def bindJ_def ret_def clear_storage_def)
next
  case False
  then show ?thesis
    by (simp add: confirmLogout_def try_catch_def bindJ_def ret_def clear_storage_def)
qed

lemma confirmLogout_skips:
  assumes "am" and "sign_out_unreadable w"
  shows "localStorage (snd (confirmLogout am w)) = localStorage w"
proof -
  obtain t w' where l: "logout w = (Inl t, w')" and s: "localStorage w' = localStorage w"
    using logout_rejects [OF assms(2)] by (cases "logout w") auto
  with assms(1) show ?thesis
    by (simp add: confirmLogout_def try_catch_def bindJ_def ret_def)
qed

lemma logout_issues_sign_out:
  assumes "supabase w = Some sb"
  shows "issued w (snd (logout w)) = [SignOut]"
  using assms
  by (auto simp add: issued_def logout_def js_defs clearCurrentUser_eq dispatchEvent_def
      report_state split: option.splits sum.splits prod.splits)

text \<open>
  C3 (as amended). When the collaborator's sign-out reports no error, \<open>logout()\<close> returns
  success, removes \<open>auth_user\<close> and \<open>userProfile\<close> from local storage and broadcasts
  \<open>authUserCleared\<close> (once from \<open>clearCurrentUser\<close>, once itself).
  When the sign-out reports an error, \<open>logout()\<close> returns a failure with the collaborator's
  message, clears nothing and broadcasts nothing. The cache is cleared whether the sign-out
  succeeded or reported an error by the caller, \<open>Navigation.confirmLogout\<close>, which empties
  local storage after \<open>logout()\<close> has returned. Only when \<open>logout()\<close> itself rejects, which it
  does when the sign-out call rejects with \<open>undefined\<close> or \<open>null\<close>, does \<open>confirmLogout\<close> skip
  the clearing and leave local storage as it is.
\<close>

theorem logout_clears_cache:
  "(supabase w = Some sb \<and> sb (remote w) SignOut = (Inr r, s') \<and> r_error r = None \<longrightarrow>
      fst (logout w) = Inr succeeded
      \<and> map_of (localStorage (snd (logout w))) ''auth_user'' = None
      \<and> map_of (localStorage (snd (logout w))) ''userProfile'' = None
      \<and> events (snd (logout w))
          = events w @ [Event ''authUserCleared'' None, Event ''authUserCleared'' None])
   \<and> (supabase w = Some sb \<and> sb (remote w) SignOut = (Inr r, s') \<and> r_error r = Some e \<longrightarrow>
      fst (logout w) = Inr (failure (msg e))
      \<and> localStorage (snd (logout w)) = localStorage w
      \<and> events (snd (logout w)) = events w)
   \<and> (\<not> (am \<and> sign_out_unreadable w) \<longrightarrow> localStorage (snd (confirmLogout am w)) = [])
   \<and> (am \<and> sign_out_unreadable w \<longrightarrow>
        localStorage (snd (confirmLogout am w)) = localStorage w)"
  by (simp add: logout_signed_out logout_sign_out_error delete_conv' confirmLogout_clears
      confirmLogout_skips)

theorem logout_clears_cache_witness:
  "fst (logout cached_session)
     = Inr \<lparr>success = True, error = None, requiresLogin = None, data = None, user = None,
            message = None\<rparr>
   \<and> map_of (localStorage (snd (logout cached_session))) ''auth_user'' = None
   \<and> map_of (localStorage (snd (logout cached_session))) ''userProfile'' = None
   \<and> fst (logout cached_offline)
     = Inr \<lparr>success = False, error = Some ''Failed to fetch'', requiresLogin = None, data = None,
            user = None, message = None\<rparr>
   \<and> localStorage (snd (confirmLogout True cached_offline)) = []
   \<and> sign_out_unreadable sign_out_undefined
   \<and> localStorage (snd (confirmLogout True sign_out_undefined)) = cached_items"
proof -
  let ?ok = "scripted (Some bob) no_errors"
  let ?bad = "scripted (Some bob) sign_out_fails"
  let ?r = "\<lparr>r_user = Some bob, r_session = True, r_data = JNull, r_error = None\<rparr>"
  let ?q = "\<lparr>r_user = Some bob, r_session = True, r_data = JNull, r_error = Some failed_to_fetch\<rparr>"
  have a: "supabase cached_session = Some ?ok"
    and b: "?ok (remote cached_session) SignOut = (Inr ?r, ())"
    and c: "supabase cached_offline = Some ?bad"
    and d: "?bad (remote cached_offline) SignOut = (Inr ?q, ())"
    by (simp_all add: cached_session_def cached_offline_def demo_defs sign_out_fails_def)
  have n1: "\<not> sign_out_unreadable cached_offline"
    by (simp add: sign_out_unreadable_def cached_offline_def demo_defs)
  have n2: "sign_out_unreadable sign_out_undefined"
    by (simp add: sign_out_unreadable_def sign_out_undefined_def rejects_undefined_def browser_def)
  have items: "localStorage sign_out_undefined = cached_items"
    by (simp add: sign_out_undefined_def browser_def)
  show ?thesis
    using a b logout_clears_cache [of cached_session ?ok ?r "()" failed_to_fetch True]
      c d logout_clears_cache [of cached_offline ?bad ?q "()" failed_to_fetch True]
      n1 n2 items logout_clears_cache [of sign_out_undefined ?ok ?r "()" failed_to_fetch True]
    by (simp add: succeeded_def failure_def failed_to_fetch_def)
qed

text \<open>
  The claim as stated fails twice. When the sign-out fails, \<open>logout()\<close> leaves the cached
  identity in place and broadcasts nothing; when it succeeds, \<open>currentUser\<close> and the display
  fields survive it.
\<close>

theorem logout_clears_cache_counterexample:
  "map_of (localStorage (snd (logout cached_offline))) ''auth_user'' = Some ''true''
   \<and> events (snd (logout cached_offline)) = []
   \<and> map_of (localStorage (snd (logout cached_session))) ''currentUser'' = Some ''true''
   \<and> map_of (localStorage (snd (logout cached_session))) ''mindspend_username'' = Some ''bob''"
  by (simp add: cached_session_def cached_offline_def demo_defs sign_out_fails_def cached_items_def
      logout_def js_defs clearCurrentUser_eq dispatchEvent_def failure_def report_Error)

lemma cache_empty_delete:
  assumes "cache_empty w"
  shows "AList.delete ''userProfile'' (AList.delete ''auth_user'' (localStorage w)) = localStorage w"
proof -
  from assms have "map_of (localStorage w) ''auth_user'' = None"
    and "map_of (localStorage w) ''userProfile'' = None"
    by (simp_all add: cache_empty_def identity_keys_def)
  then have "''auth_user'' \<notin> fst ` set (localStorage w)"
    and "''userProfile'' \<notin> fst ` set (localStorage w)"
    by (simp_all add: map_of_eq_None_iff)
  then show ?thesis by simp
qed

lemma logout_keeps_empty_cache:
  assumes "cache_empty w"
  shows "localStorage (snd (logout w)) = localStorage w"
proof (cases "supabase w")
  case None
  then show ?thesis by (simp add: logout_no_client)
next
  case (Some sb)
  obtain x s' where x: "sb (remote w) SignOut = (x, s')" by (cases "sb (remote w) SignOut")
  show ?thesis
  proof (cases x)
    case (Inl a)
    with Some x show ?thesis by (simp add: logout_sign_out_rejected report_state)
  next
    case (Inr r)
    show ?thesis
    proof (cases "r_error r")
      case None
      with Some x Inr show ?thesis
        by (simp add: logout_signed_out cache_empty_delete [OF assms])
    next
      case (Some e)
      with \<open>supabase w = Some sb\<close> x Inr show ?thesis
        by (simp add: logout_sign_out_error)
    qed
  qed
qed

text \<open>
  C6 (as amended). \<open>logout()\<close> has no shortcut for the anonymous state. Called when the client
  is already anonymous, it leaves the cache unchanged in every case; with an initialised
  client it still issues the collaborator's sign-out call, and returns success when that call
  reports no error and a failure with the collaborator's message when it reports one; with no
  client it returns \<open>{success: false, error: 'Supabase not initialized'}\<close>. Clearing the cache
  twice leaves what clearing it once leaves.
\<close>

theorem logout_when_anonymous:
  "(anonymous w \<longrightarrow>
      localStorage (snd (logout w)) = localStorage w
      \<and> (supabase w = None \<longrightarrow> logout w = (Inr (failure ''Supabase not initialized''), w))
      \<and> (supabase w = Some sb \<longrightarrow> issued w (snd (logout w)) = [SignOut])
      \<and> (supabase w = Some sb \<and> sb (remote w) SignOut = (Inr r, s') \<and> r_error r = None \<longrightarrow>
            fst (logout w) = Inr succeeded)
      \<and> (supabase w = Some sb \<and> sb (remote w) SignOut = (Inr r, s') \<and> r_error r = Some e \<longrightarrow>
            fst (logout w) = Inr (failure (msg e))))
   \<and> localStorage (snd (clearCurrentUser (snd (clearCurrentUser w))))
       = localStorage (snd (clearCurrentUser w))"
  by (simp add: anonymous_def logout_keeps_empty_cache logout_no_client logout_issues_sign_out
      logout_signed_out logout_sign_out_error clearCurrentUser_eq delete_idem delete_twist)

theorem logout_when_anonymous_witness:
  "anonymous signed_out
   \<and> localStorage (snd (logout signed_out)) = []
   \<and> issued signed_out (snd (logout signed_out)) = [SignOut]
   \<and> fst (logout signed_out)
       = Inr \<lparr>success = True, error = None, requiresLogin = None, data = None, user = None,
              message = None\<rparr>"
proof -
  let ?r = "\<lparr>r_user = None, r_session = False, r_data = JNull, r_error = None\<rparr>"
  have a: "anonymous signed_out"
    by (simp add: anonymous_def session_user_def cache_empty_def identity_keys_def
        signed_out_def demo_defs)
  have b: "supabase signed_out = Some (scripted None no_errors)"
    by (simp add: signed_out_def browser_def)
  have c: "scripted None no_errors (remote signed_out) SignOut = (Inr ?r, ())"
    by (simp add: demo_defs)
  have d: "localStorage signed_out = []"
    by (simp add: signed_out_def browser_def)
  show ?thesis
    using a b c d
      logout_when_anonymous [of signed_out "scripted None no_errors" ?r "()" failed_to_fetch]
    by (simp add: succeeded_def)
qed

text \<open>
  The claim as stated fails: an anonymous client with an initialised collaborator still calls
  the collaborator's sign-out, and an anonymous client whose collaborator library did not
  load gets an error from \<open>logout()\<close>.
\<close>

theorem logout_when_anonymous_counterexample:
  "anonymous signed_out
   \<and> calls (snd (logout signed_out)) = [SignOut]
   \<and> anonymous no_client
   \<and> fst (logout no_client)
       = Inr \<lparr>success = False, error = Some ''Supabase not initialized'', requiresLogin = None,
              data = None, user = None, message = None\<rparr>"
  by (simp add: anonymous_def session_user_def cache_empty_def identity_keys_def
      signed_out_def no_client_def demo_defs
      logout_def js_defs clearCurrentUser_eq dispatchEvent_def failure_def)

section \<open>Properties of \<open>changePassword\<close>\<close>

lemma incorrect_password_mentions_password:
  "str_includes (toLowerCase incorrect_password) ''password''"
  by (simp add: incorrect_password_def toLowerCase_def lower_char_def)

text \<open>
  No error reported by the update step is returned with the message of a failed
  verification: a message that mentions a password is replaced by one of two fixed texts.
\<close>

lemma update_error_message_distinct: "update_error_message m \<noteq> incorrect_password"
proof
  assume eq: "update_error_message m = incorrect_password"
  let ?msg = "if m = [] then ''Failed to update password'' else m"
  show False
  proof (cases "str_includes (toLowerCase ?msg) ''same''")
    case True
    with eq show False
      by (simp add: update_error_message_def Let_def incorrect_password_def)
  next
    case nsame: False
    show False
    proof (cases "str_includes (toLowerCase ?msg) ''password''")
      case True
      with nsame eq show False
        by (simp add: update_error_message_def Let_def incorrect_password_def)
    next
      case npw: False
      show False
      proof (cases "str_includes (toLowerCase ?msg) ''network'' \<or> str_includes (toLowerCase ?msg) ''connection''")
        case True
        with nsame npw eq show False
          by (simp add: update_error_message_def Let_def incorrect_password_def)
      next
        case False
        with nsame npw eq have "?msg = incorrect_password"
          by (simp add: update_error_message_def Let_def)
        with npw incorrect_password_mentions_password show False
          by simp
      qed
    qed
  qed
qed

text \<open>The two copies of \<open>changePassword\<close>, from the re-authentication on.\<close>

lemma changePassword_from_sign_in:
  assumes "supabase w = Some sb"
    and "sb (remote w) GetUser = (Inr r1, s1)"
    and "r_error r1 = None"
    and "r_user r1 = Some u"
    and "sb s1 (SignInWithPassword (email_val u) current) = (x, s2)"
  shows "changePassword current new w =
     (let w2 = w\<lparr>remote := s2, calls := calls w @ [GetUser, SignInWithPassword (email_val u) current]\<rparr>
      in case x of
           Inl e \<Rightarrow>
             (case message_of e of
                Inl t \<Rightarrow> (Inl t, w2)
              | Inr m \<Rightarrow> (Inr (failure (unexpected_error_message (or_blank m))), w2))
         | Inr r2 \<Rightarrow>
             (case r_error r2 of
                Some e \<Rightarrow> (Inr (failure incorrect_password), w2)
              | None \<Rightarrow>
                  (case sb s2 (UpdateUser new) of
                     (Inl e, s3) \<Rightarrow>
                       (case message_of e of
                          Inl t \<Rightarrow> (Inl t, w2\<lparr>remote := s3, calls := calls w2 @ [UpdateUser new]\<rparr>)
                        | Inr m \<Rightarrow> (Inr (failure (unexpected_error_message (or_blank m))),
                                   w2\<lparr>remote := s3, calls := calls w2 @ [UpdateUser new]\<rparr>))
                   | (Inr r3, s3) \<Rightarrow>
                       (case r_error r3 of
                          Some ue \<Rightarrow> (Inr (failure (update_error_message (msg ue))),
                                     w2\<lparr>remote := s3, calls := calls w2 @ [UpdateUser new]\<rparr>)
                        | None \<Rightarrow> (Inr (succeeded\<lparr>message := Some ''Password updated successfully''\<rparr>),
                                   w2\<lparr>remote := s3, calls := calls w2 @ [UpdateUser new]\<rparr>)))))"
  using assms
  by (simp add: changePassword_def js_defs Let_def split: sum.splits option.splits prod.splits)

lemma changePassword_part001_from_sign_in:
  assumes "supabase w = Some sb"
    and "sb (remote w) GetUser = (Inr r1, s1)"
    and "r_error r1 = None"
    and "r_user r1 = Some u"
    and "sb s1 (SignInWithPassword (email_val u) current) = (x, s2)"
  shows "changePassword_part001 current new w =
     (let w2 = w\<lparr>remote := s2, calls := calls w @ [GetUser, SignInWithPassword (email_val u) current]\<rparr>
      in case x of
           Inl e \<Rightarrow> report e w2
         | Inr r2 \<Rightarrow>
             (case r_error r2 of
                Some e \<Rightarrow> (Inr (failure ''Current password is incorrect''), w2)
              | None \<Rightarrow>
                  (case sb s2 (UpdateUser new) of
                     (Inl e, s3) \<Rightarrow> report e (w2\<lparr>remote := s3, calls := calls w2 @ [UpdateUser new]\<rparr>)
                   | (Inr r3, s3) \<Rightarrow>
                       (case r_error r3 of
                          Some ue \<Rightarrow> (Inr (failure (msg ue)),
                                     w2\<lparr>remote := s3, calls := calls w2 @ [UpdateUser new]\<rparr>)
                        | None \<Rightarrow> (Inr succeeded,
                                   w2\<lparr>remote := s3, calls := calls w2 @ [UpdateUser new]\<rparr>)))))"
proof -
  have su: "session_user w = Some u"
    using assms by (simp add: session_user_def)
  have al: "after_lookup w = w\<lparr>remote := s1, calls := calls w @ [GetUser]\<rparr>"
    using assms by (simp add: after_lookup_def)
  show ?thesis
    using assms
    by (simp add: changePassword_part001_def js_defs getCurrentUser_eq su al Let_def
        split: sum.splits option.splits prod.splits)
qed

text \<open>
  C5 (as amended). When the collaborator's re-authentication with the current password
  reports an error, \<open>changePassword(current, new)\<close> returns \<open>{success: false}\<close> with a fixed
  message of its own: \<open>'Current password is incorrect. Please try again.'\<close> in
  \<open>frontend/utils/auth.js\<close>, \<open>'Current password is incorrect'\<close> in the second copy of the
  manager. Whenever the re-authentication reports an error or rejects, the update step is not
  called: the requests issued are the session lookup and the re-authentication. A
  re-authentication that rejects with a message is reported through the \<open>catch\<close> block, as
  any other rejection is: with the rejection's message in the second copy, and with the text
  that \<open>frontend/utils/auth.js\<close> makes of it (the message itself, or a fixed text for network
  errors). An error reported by the update step is returned by \<open>frontend/utils/auth.js\<close>
  with a message that is never the verification message, and by the second copy with the
  collaborator's own message, unchanged.
\<close>

theorem changePassword_wrong_current:
  assumes "supabase w = Some sb"
    and "sb (remote w) GetUser = (Inr r1, s1)"
    and "r_error r1 = None"
    and "r_user r1 = Some u"
    and "sb s1 (SignInWithPassword (email_val u) current) = (x, s2)"
  shows "(\<forall>r2 e. x = Inr r2 \<and> r_error r2 = Some e \<longrightarrow>
            changePassword current new w
              = (Inr (failure incorrect_password),
                 w\<lparr>remote := s2, calls := calls w @ [GetUser, SignInWithPassword (email_val u) current]\<rparr>)
          \<and> changePassword_part001 current new w
              = (Inr (failure ''Current password is incorrect''),
                 w\<lparr>remote := s2, calls := calls w @ [GetUser, SignInWithPassword (email_val u) current]\<rparr>))
         \<and> ((\<forall>r2. x = Inr r2 \<longrightarrow> r_error r2 \<noteq> None) \<longrightarrow>
            issued w (snd (changePassword current new w))
              = [GetUser, SignInWithPassword (email_val u) current]
          \<and> issued w (snd (changePassword_part001 current new w))
              = [GetUser, SignInWithPassword (email_val u) current]
          \<and> UpdateUser new \<notin> set (issued w (snd (changePassword current new w)))
          \<and> UpdateUser new \<notin> set (issued w (snd (changePassword_part001 current new w))))
         \<and> (\<forall>m. x = Inl (Error m) \<longrightarrow>
            fst (changePassword current new w) = Inr (failure (unexpected_error_message m))
          \<and> fst (changePassword_part001 current new w) = Inr (failure m))
         \<and> (\<forall>r2 r3 s3 ue. x = Inr r2 \<and> r_error r2 = None
               \<and> sb s2 (UpdateUser new) = (Inr r3, s3) \<and> r_error r3 = Some ue \<longrightarrow>
            fst (changePassword current new w) = Inr (failure (update_error_message (msg ue)))
          \<and> fst (changePassword current new w) \<noteq> Inr (failure incorrect_password)
          \<and> fst (changePassword_part001 current new w) = Inr (failure (msg ue)))
         \<and> (\<forall>m. update_error_message m \<noteq> incorrect_password)"
proof -
  note f = changePassword_from_sign_in [OF assms, of new]
  note p = changePassword_part001_from_sign_in [OF assms, of new]
  have a: "\<forall>r2 e. x = Inr r2 \<and> r_error r2 = Some e \<longrightarrow>
            changePassword current new w
              = (Inr (failure incorrect_password),
                 w\<lparr>remote := s2, calls := calls w @ [GetUser, SignInWithPassword (email_val u) current]\<rparr>)
          \<and> changePassword_part001 current new w
              = (Inr (failure ''Current password is incorrect''),
                 w\<lparr>remote := s2, calls := calls w @ [GetUser, SignInWithPassword (email_val u) current]\<rparr>)"
    by (simp add: f p Let_def)
  have issued_f: "(\<forall>r2. x = Inr r2 \<longrightarrow> r_error r2 \<noteq> None) \<longrightarrow>
            issued w (snd (changePassword current new w))
              = [GetUser, SignInWithPassword (email_val u) current]"
    by (cases x) (auto simp add: f Let_def issued_def split: sum.splits)
  have issued_p: "(\<forall>r2. x = Inr r2 \<longrightarrow> r_error r2 \<noteq> None) \<longrightarrow>
            issued w (snd (changePassword_part001 current new w))
              = [GetUser, SignInWithPassword (email_val u) current]"
    by (cases x) (auto simp add: p Let_def issued_def report_state)
  have c: "\<forall>m. x = Inl (Error m) \<longrightarrow>
            fst (changePassword current new w) = Inr (failure (unexpected_error_message m))
          \<and> fst (changePassword_part001 current new w) = Inr (failure m)"
    by (simp add: f p Let_def report_Error)
  have d: "\<forall>r2 r3 s3 ue. x = Inr r2 \<and> r_error r2 = None
               \<and> sb s2 (UpdateUser new) = (Inr r3, s3) \<and> r_error r3 = Some ue \<longrightarrow>
            fst (changePassword current new w) = Inr (failure (update_error_message (msg ue)))
          \<and> fst (changePassword current new w) \<noteq> Inr (failure incorrect_password)
          \<and> fst (changePassword_part001 current new w) = Inr (failure (msg ue))"
    by (simp add: f p Let_def failure_def update_error_message_distinct)
  from issued_f issued_p have b: "(\<forall>r2. x = Inr r2 \<longrightarrow> r_error r2 \<noteq> None) \<longrightarrow>
            issued w (snd (changePassword current new w))
              = [GetUser, SignInWithPassword (email_val u) current]
          \<and> issued w (snd (changePassword_part001 current new w))
              = [GetUser, SignInWithPassword (email_val u) current]
          \<and> UpdateUser new \<notin> set (issued w (snd (changePassword current new w)))
          \<and> UpdateUser new \<notin> set (issued w (snd (changePassword_part001 current new w)))"
    by simp
  from a b c d update_error_message_distinct show ?thesis
    by blast
qed

theorem changePassword_wrong_current_witness:
  "fst (changePassword (JStr ''guess'') (JStr ''n3w-secret'') wrong_password)
     = Inr \<lparr>success = False, error = Some ''Current password is incorrect. Please try again.'',
            requiresLogin = None, data = None, user = None, message = None\<rparr>
   \<and> calls (snd (changePassword (JStr ''guess'') (JStr ''n3w-secret'') wrong_password))
     = [GetUser, SignInWithPassword (JStr ''bob@example.com'') (JStr ''guess'')]
   \<and> fst (changePassword_part001 (JStr ''guess'') (JStr ''n3w-secret'') wrong_password)
     = Inr \<lparr>success = False, error = Some ''Current password is incorrect'',
            requiresLogin = None, data = None, user = None, message = None\<rparr>
   \<and> issued wrong_password (snd (changePassword_part001 (JStr ''guess'') (JStr ''n3w-secret'') wrong_password))
     = [GetUser, SignInWithPassword (JStr ''bob@example.com'') (JStr ''guess'')]
   \<and> fst (changePassword (JStr ''0ld-secret'') (JStr ''n3w-secret'') update_refused)
     = Inr \<lparr>success = False,
            error = Some ''Password update failed. Please ensure your password meets all requirements.'',
            requiresLogin = None, data = None, user = None, message = None\<rparr>"
proof -
  let ?sb = "scripted (Some bob) sign_in_fails"
  let ?ub = "scripted (Some bob) update_fails"
  let ?r1 = "\<lparr>r_user = Some bob, r_session = True, r_data = JNull, r_error = None\<rparr>"
  let ?r2 = "\<lparr>r_user = Some bob, r_session = True, r_data = JNull, r_error = Some invalid_credentials\<rparr>"
  let ?r3 = "\<lparr>r_user = Some bob, r_session = True, r_data = JNull, r_error = Some says_incorrect\<rparr>"
  have h: "supabase wrong_password = Some ?sb" "?sb (remote wrong_password) GetUser = (Inr ?r1, ())"
    "r_error ?r1 = None" "r_user ?r1 = Some bob"
    "?sb () (SignInWithPassword (email_val bob) (JStr ''guess'')) = (Inr ?r2, ())"
    by (simp_all add: wrong_password_def demo_defs sign_in_fails_def)
  have g: "supabase update_refused = Some ?ub" "?ub (remote update_refused) GetUser = (Inr ?r1, ())"
    "r_error ?r1 = None" "r_user ?r1 = Some bob"
    "?ub () (SignInWithPassword (email_val bob) (JStr ''0ld-secret'')) = (Inr ?r1, ())"
    by (simp_all add: update_refused_def demo_defs update_fails_def)
  have u: "?ub () (UpdateUser (JStr ''n3w-secret'')) = (Inr ?r3, ())"
    by (simp add: demo_defs update_fails_def)
  have c: "calls wrong_password = []"
    by (simp add: wrong_password_def browser_def)
  have em: "email_val bob = JStr ''bob@example.com''"
    by (simp add: email_val_def bob_def)
  have um: "update_error_message (msg says_incorrect)
              = ''Password update failed. Please ensure your password meets all requirements.''"
    by (simp add: update_error_message_def says_incorrect_def toLowerCase_def lower_char_def)
  from changePassword_wrong_current [OF h, of "JStr ''n3w-secret''"]
  have "changePassword (JStr ''guess'') (JStr ''n3w-secret'') wrong_password
          = (Inr (failure incorrect_password),
             wrong_password\<lparr>remote := (), calls := calls wrong_password @
                [GetUser, SignInWithPassword (email_val bob) (JStr ''guess'')]\<rparr>)"
    and "changePassword_part001 (JStr ''guess'') (JStr ''n3w-secret'') wrong_password
          = (Inr (failure ''Current password is incorrect''),
             wrong_password\<lparr>remote := (), calls := calls wrong_password @
                [GetUser, SignInWithPassword (email_val bob) (JStr ''guess'')]\<rparr>)"
    and "issued wrong_password (snd (changePassword_part001 (JStr ''guess'') (JStr ''n3w-secret'') wrong_password))
          = [GetUser, SignInWithPassword (email_val bob) (JStr ''guess'')]"
    by (simp_all add: issued_def)
  moreover from changePassword_wrong_current [OF g, of "JStr ''n3w-secret''"] u
  have "fst (changePassword (JStr ''0ld-secret'') (JStr ''n3w-secret'') update_refused)
          = Inr (failure (update_error_message (msg says_incorrect)))"
    by simp
  ultimately show ?thesis
    by (simp add: failure_def incorrect_password_def em c um)
qed

text \<open>
  The claim as stated fails. In the second copy of the manager an error of the update step
  that carries the words of a failed verification gives the envelope of a failed
  verification, although the verification passed and the update step was called. In
  \<open>frontend/utils/auth.js\<close> a verification that fails because the call rejects is reported
  with the same network message as an update step that rejects.
\<close>

theorem changePassword_wrong_current_counterexample:
  "fst (changePassword_part001 (JStr ''0ld-secret'') (JStr ''n3w-secret'') update_refused)
     = Inr \<lparr>success = False, error = Some ''Current password is incorrect'',
            requiresLogin = None, data = None, user = None, message = None\<rparr>
   \<and> calls (snd (changePassword_part001 (JStr ''0ld-secret'') (JStr ''n3w-secret'') update_refused))
     = [GetUser, SignInWithPassword (JStr ''bob@example.com'') (JStr ''0ld-secret''),
        UpdateUser (JStr ''n3w-secret'')]
   \<and> fst (changePassword_part001 (JStr ''guess'') (JStr ''n3w-secret'') wrong_password)
     = fst (changePassword_part001 (JStr ''0ld-secret'') (JStr ''n3w-secret'') update_refused)
   \<and> fst (changePassword (JStr ''guess'') (JStr ''n3w-secret'') sign_in_offline)
     = Inr \<lparr>success = False,
            error = Some ''Network connection error. Please check your internet connection.'',
            requiresLogin = None, data = None, user = None, message = None\<rparr>
   \<and> calls (snd (changePassword (JStr ''guess'') (JStr ''n3w-secret'') sign_in_offline))
     = [GetUser, SignInWithPassword (JStr ''bob@example.com'') (JStr ''guess'')]
   \<and> fst (changePassword (JStr ''0ld-secret'') (JStr ''n3w-secret'') update_offline)
     = fst (changePassword (JStr ''guess'') (JStr ''n3w-secret'') sign_in_offline)"
proof -
  have a: "changePassword_part001 (JStr ''0ld-secret'') (JStr ''n3w-secret'') update_refused
     = (Inr (failure ''Current password is incorrect''),
        update_refused\<lparr>remote := (), calls := [GetUser,
          SignInWithPassword (JStr ''bob@example.com'') (JStr ''0ld-secret''),
          UpdateUser (JStr ''n3w-secret'')]\<rparr>)"
    by (simp add: changePassword_part001_def js_defs getCurrentUser_eq session_user_def
        after_lookup_def update_refused_def demo_defs update_fails_def says_incorrect_def
        email_val_def bob_def)
  have b: "fst (changePassword_part001 (JStr ''guess'') (JStr ''n3w-secret'') wrong_password)
     = Inr (failure ''Current password is incorrect'')"
    by (simp add: changePassword_part001_def js_defs getCurrentUser_eq session_user_def
        after_lookup_def wrong_password_def demo_defs sign_in_fails_def)
  have net: "unexpected_error_message ''Failed to fetch''
     = ''Network connection error. Please check your internet connection.''"
    by (simp add: unexpected_error_message_def toLowerCase_def lower_char_def)
  have c: "changePassword (JStr ''guess'') (JStr ''n3w-secret'') sign_in_offline
     = (Inr (failure (unexpected_error_message ''Failed to fetch'')),
        sign_in_offline\<lparr>remote := (), calls := [GetUser,
          SignInWithPassword (JStr ''bob@example.com'') (JStr ''guess'')]\<rparr>)"
    by (simp add: changePassword_def js_defs sign_in_offline_def offline_at_def demo_defs
        email_val_def bob_def)
  have d: "fst (changePassword (JStr ''0ld-secret'') (JStr ''n3w-secret'') update_offline)
     = Inr (failure (unexpected_error_message ''Failed to fetch''))"
    by (simp add: changePassword_def js_defs update_offline_def offline_at_def demo_defs
        email_val_def bob_def)
  show ?thesis
    by (simp add: a b c d net failure_def)
qed

section \<open>Properties of the metric operations\<close>

lemma getMetrics_issued:
  "issued w (snd (getMetrics w)) =
     (case supabase w of
        None \<Rightarrow> []
      | Some sb \<Rightarrow>
          (case session_user w of
             None \<Rightarrow> [GetUser]
           | Some u \<Rightarrow> [GetUser, From ''metrics''
                          [Select ''*'', Eq ''user_id'' (JStr (uid u)), Order ''created_at'' False]]))"
  by (auto simp add: issued_def getMetrics_def js_defs getCurrentUser_eq supabase_after_lookup
      calls_after_lookup session_user_def report_state
      split: option.splits sum.splits prod.splits)

lemma deleteMetric_issued:
  "issued w (snd (deleteMetric i w)) =
     (case supabase w of
        None \<Rightarrow> []
      | Some sb \<Rightarrow>
          (case session_user w of
             None \<Rightarrow> [GetUser]
           | Some u \<Rightarrow> [GetUser, From ''metrics''
                          [Delete, Eq ''id'' i, Eq ''user_id'' (JStr (uid u))]]))"
  by (auto simp add: issued_def deleteMetric_def js_defs getCurrentUser_eq supabase_after_lookup
      calls_after_lookup session_user_def report_state
      split: option.splits sum.splits prod.splits)

text \<open>
  \<open>addMetric\<close> copies \<open>category\<close>, \<open>value\<close> and \<open>description\<close> from its argument and nothing
  else; when one of them cannot be read (the argument is \<open>null\<close> or \<open>undefined\<close>) no table
  request is made.
\<close>

lemma addMetric_issued:
  "issued w (snd (addMetric md w)) =
     (case supabase w of
        None \<Rightarrow> []
      | Some sb \<Rightarrow>
          (case session_user w of
             None \<Rightarrow> [GetUser]
           | Some u \<Rightarrow>
               (case (get_prop md ''category'', get_prop md ''value'', get_prop md ''description'') of
                  (Inr c, Inr v, Inr d) \<Rightarrow>
                    [GetUser, From ''metrics''
                       [Insert [JObj [(''user_id'', JStr (uid u)), (''category'', c),
                                      (''value'', v), (''description'', d)]],
                        Select []]]
                | _ \<Rightarrow> [GetUser])))"
  by (auto simp add: issued_def addMetric_def js_defs getCurrentUser_eq supabase_after_lookup
      calls_after_lookup session_user_def read_prop_def report_state
      split: option.splits sum.splits prod.splits)

lemma metrics_browser_session: "session_user (metrics_browser rows) = Some bob"
  by (simp add: session_user_def metrics_browser_def metrics_client_def)

text \<open>
  C7. Every request that \<open>getMetrics\<close>, \<open>addMetric\<close> and \<open>deleteMetric\<close> issue is either the
  session lookup or a request on \<open>metrics\<close> scoped by the \<open>user_id\<close> of the user that the
  lookup reports: a filter \<open>user_id = user.id\<close> on the query and the delete, the column
  \<open>user_id: user.id\<close> on the inserted row. No argument of the caller reaches the scope: a
  \<open>user_id\<close> inside the metric passed to \<open>addMetric\<close> is not copied.
\<close>

theorem metrics_scoped_by_session:
  "(\<forall>rq \<in> set (issued w (snd (getMetrics w))). by_session w rq)
   \<and> (\<forall>rq \<in> set (issued w (snd (addMetric md w))). by_session w rq)
   \<and> (\<forall>rq \<in> set (issued w (snd (deleteMetric i w))). by_session w rq)"
  by (auto simp add: getMetrics_issued addMetric_issued deleteMetric_issued by_session_def
      split: option.splits sum.splits prod.splits)

theorem metrics_scoped_by_session_witness:
  "issued (metrics_browser two_rows) (snd (addMetric spoofed (metrics_browser two_rows)))
     = [GetUser, From ''metrics''
          [Insert [JObj [(''user_id'', JStr ''u1''), (''category'', JStr ''food''),
                         (''value'', JNum 12.5), (''description'', JStr ''lunch'')]],
           Select []]]
   \<and> by_session (metrics_browser two_rows)
        (From ''metrics''
          [Insert [JObj [(''user_id'', JStr ''u1''), (''category'', JStr ''food''),
                         (''value'', JNum 12.5), (''description'', JStr ''lunch'')]],
           Select []])"
proof -
  let ?w = "metrics_browser two_rows"
  have c: "supabase ?w = Some (metrics_client (Some bob))"
    by (simp add: metrics_browser_def)
  have i: "issued ?w (snd (addMetric spoofed ?w))
     = [GetUser, From ''metrics''
          [Insert [JObj [(''user_id'', JStr ''u1''), (''category'', JStr ''food''),
                         (''value'', JNum 12.5), (''description'', JStr ''lunch'')]],
           Select []]]"
    by (simp add: addMetric_issued metrics_browser_session c spoofed_def bob_def)
  with metrics_scoped_by_session [of ?w spoofed JNull] show ?thesis
    by simp
qed

text \<open>
  C10. For a signed-in user, \<open>deleteMetric(metricId)\<close> returns \<open>{success: true}\<close> whenever the
  collaborator's reply to the delete carries no error, whatever else the reply carries: the
  envelope is the same when no row matched (no metric has that id, or the metric with that
  id belongs to another user and the \<open>user_id\<close> filter excludes it) and when a row was
  deleted.
\<close>

theorem deleteMetric_reports_success:
  assumes "supabase w = Some sb"
    and "session_user w = Some u"
    and "sb (remote (after_lookup w)) (From ''metrics'' [Delete, Eq ''id'' i, Eq ''user_id'' (JStr (uid u))])
           = (Inr r, s')"
    and "r_error r = None"
  shows "fst (deleteMetric i w) = Inr succeeded \<and> remote (snd (deleteMetric i w)) = s'"
  using assms
  by (simp add: deleteMetric_def js_defs getCurrentUser_eq supabase_after_lookup)

text \<open>
  The table holds \<open>m1\<close> of the signed-in user and \<open>m2\<close> of another user. Deleting the unknown
  \<open>m9\<close> and the foreign \<open>m2\<close> leaves the table as it is, deleting \<open>m1\<close> removes it, and the
  three envelopes are equal.
\<close>

theorem deleteMetric_reports_success_witness:
  "fst (deleteMetric (JStr ''m9'') (metrics_browser two_rows))
     = Inr \<lparr>success = True, error = None, requiresLogin = None, data = None, user = None,
            message = None\<rparr>
   \<and> remote (snd (deleteMetric (JStr ''m9'') (metrics_browser two_rows))) = two_rows
   \<and> fst (deleteMetric (JStr ''m2'') (metrics_browser two_rows))
     = fst (deleteMetric (JStr ''m9'') (metrics_browser two_rows))
   \<and> remote (snd (deleteMetric (JStr ''m2'') (metrics_browser two_rows))) = two_rows
   \<and> fst (deleteMetric (JStr ''m1'') (metrics_browser two_rows))
     = fst (deleteMetric (JStr ''m9'') (metrics_browser two_rows))
   \<and> remote (snd (deleteMetric (JStr ''m1'') (metrics_browser two_rows))) = [(''m2'', ''u2'')]"
proof -
  let ?w = "metrics_browser two_rows"
  let ?sb = "metrics_client (Some bob)"
  let ?r = "\<lparr>r_user = None, r_session = False, r_data = JNull, r_error = None\<rparr>"
  have c: "supabase ?w = Some ?sb"
    by (simp add: metrics_browser_def)
  have rem: "remote (after_lookup ?w) = two_rows"
    by (simp add: after_lookup_def metrics_browser_def metrics_client_def)
  have d9: "?sb (remote (after_lookup ?w)) (From ''metrics'' [Delete, Eq ''id'' (JStr ''m9''), Eq ''user_id'' (JStr (uid bob))])
             = (Inr ?r, two_rows)"
    and d2: "?sb (remote (after_lookup ?w)) (From ''metrics'' [Delete, Eq ''id'' (JStr ''m2''), Eq ''user_id'' (JStr (uid bob))])
             = (Inr ?r, two_rows)"
    and d1: "?sb (remote (after_lookup ?w)) (From ''metrics'' [Delete, Eq ''id'' (JStr ''m1''), Eq ''user_id'' (JStr (uid bob))])
             = (Inr ?r, [(''m2'', ''u2'')])"
    unfolding rem by (simp_all add: metrics_client_def two_rows_def bob_def)
  have e: "r_error ?r = None" by simp
  show ?thesis
    using deleteMetric_reports_success [OF c metrics_browser_session d9 e]
      deleteMetric_reports_success [OF c metrics_browser_session d2 e]
      deleteMetric_reports_success [OF c metrics_browser_session d1 e]
    by (simp add: succeeded_def)
qed

section \<open>Properties of \<open>register\<close>\<close>

text \<open>
  \<open>register\<close> of \<open>frontend/utils/auth.js\<close>, when the sign-up succeeds and the insert of the
  profile reports an error: the deletion of the created identity is attempted and, unless
  that call rejects with \<open>undefined\<close> or \<open>null\<close>, the envelope is a failure whose message is
  computed from the profile error; neither the cache nor the broadcasts change.
\<close>

lemma register_profile_failure:
  assumes "supabase w = Some sb"
    and "sb (remote w) (SignUp em pw) = (Inr r1, s1)"
    and "r_error r1 = None"
    and "r_user r1 = Some u"
    and "sb s1 GetSession = (Inr r2, s2)"
    and "sb s2 (From ''profiles'' [Insert [profile_row u em un (or_empty firstName) (or_empty lastName)]]) = (Inr r3, s3)"
    and "r_error r3 = Some pe"
    and "fst (sb s3 (AdminDeleteUser (uid u))) \<noteq> Inl Nullish"
  shows "register em pw un firstName lastName w
           = (Inr (failure (userMessage (msg pe))),
              w\<lparr>remote := snd (sb s3 (AdminDeleteUser (uid u))),
                calls := calls w @ [SignUp em pw, GetSession,
                  From ''profiles'' [Insert [profile_row u em un (or_empty firstName) (or_empty lastName)]],
                  AdminDeleteUser (uid u)]\<rparr>)"
proof -
  obtain d s4 where d: "sb s3 (AdminDeleteUser (uid u)) = (d, s4)"
    by (cases "sb s3 (AdminDeleteUser (uid u))")
  show ?thesis
  proof (cases d)
    case (Inl e)
    with assms(8) d have "e \<noteq> Nullish" by simp
    then obtain m where "message_of e = Inr m" by (cases e) simp_all
    with assms d Inl show ?thesis
      by (simp add: register_def js_defs)
  next
    case (Inr r4)
    with assms d show ?thesis
      by (simp add: register_def js_defs)
  qed
qed

text \<open>The same run in the second copy of the manager: no deletion is attempted.\<close>

lemma register_part001_profile_failure:
  assumes "supabase w = Some sb"
    and "sb (remote w) (SignUp em pw) = (Inr r1, s1)"
    and "r_error r1 = None"
    and "r_user r1 = Some u"
    and "sb s1 (From ''profiles'' [Insert [profile_row u em un (or_empty firstName) (or_empty lastName)]]) = (Inr r3, s3)"
    and "r_error r3 = Some pe"
  shows "register_part001 em pw un firstName lastName w
           = (Inr (failure (msg pe)),
              w\<lparr>remote := s3,
                calls := calls w @ [SignUp em pw,
                  From ''profiles'' [Insert [profile_row u em un (or_empty firstName) (or_empty lastName)]]]\<rparr>)"
  using assms
  by (auto simp add: register_part001_def js_defs split: sum.splits prod.splits)

text \<open>
  C4. A registration whose sign-up succeeds and whose profile insert is refused by a
  row-level policy. The manager of \<open>frontend/utils/auth.js\<close> attempts the compensating
  deletion of the identity \<open>u1\<close>; the second copy of the manager returns the failure
  without attempting it. Both return a failure built from the profile error and leave the
  cache empty.
\<close>

theorem register_part001_no_rollback:
  "fst (register_part001 (JStr ''bob@example.com'') (JStr ''pw'') (JStr ''bob'') JUndefined JUndefined
         policy_blocks)
     = Inr \<lparr>success = False,
            error = Some ''new row violates row-level security policy for table profiles'',
            requiresLogin = None, data = None, user = None, message = None\<rparr>
   \<and> calls (snd (register_part001 (JStr ''bob@example.com'') (JStr ''pw'') (JStr ''bob'') JUndefined JUndefined
         policy_blocks))
     = [SignUp (JStr ''bob@example.com'') (JStr ''pw''), From ''profiles'' [Insert [bob_row]]]
   \<and> localStorage (snd (register_part001 (JStr ''bob@example.com'') (JStr ''pw'') (JStr ''bob'') JUndefined JUndefined
         policy_blocks)) = []
   \<and> fst (register (JStr ''bob@example.com'') (JStr ''pw'') (JStr ''bob'') JUndefined JUndefined
         policy_blocks)
     = Inr \<lparr>success = False,
            error = Some ''Profile creation blocked by database policy. This is likely an RLS configuration issue. Check frontend/RLS_COMPLETE_FIX.md for solution.'',
            requiresLogin = None, data = None, user = None, message = None\<rparr>
   \<and> calls (snd (register (JStr ''bob@example.com'') (JStr ''pw'') (JStr ''bob'') JUndefined JUndefined
         policy_blocks))
     = [SignUp (JStr ''bob@example.com'') (JStr ''pw''), GetSession,
        From ''profiles'' [Insert [bob_row]], AdminDeleteUser ''u1'']
   \<and> localStorage (snd (register (JStr ''bob@example.com'') (JStr ''pw'') (JStr ''bob'') JUndefined JUndefined
         policy_blocks)) = []"
proof -
  let ?sb = "scripted (Some bob) insert_fails"
  let ?w = "policy_blocks"
  let ?ok = "\<lparr>r_user = Some bob, r_session = True, r_data = JNull, r_error = None\<rparr>"
  let ?no = "\<lparr>r_user = Some bob, r_session = True, r_data = JNull, r_error = Some policy_violation\<rparr>"
  let ?em = "JStr ''bob@example.com''"
  let ?row = "profile_row bob ?em (JStr ''bob'') (or_empty JUndefined) (or_empty JUndefined)"
  have c: "supabase ?w = Some ?sb" by (simp add: policy_blocks_def demo_defs)
  have s1: "?sb (remote ?w) (SignUp ?em (JStr ''pw'')) = (Inr ?ok, ())"
    and s2: "?sb () GetSession = (Inr ?ok, ())"
    and s3: "?sb () (From ''profiles'' [Insert [?row]]) = (Inr ?no, ())"
    by (simp_all add: demo_defs insert_fails_def)
  have e: "r_error ?ok = None" and u: "r_user ?ok = Some bob" and pe: "r_error ?no = Some policy_violation"
    by simp_all
  have row: "?row = bob_row"
    by (simp add: profile_row_def or_empty_def bob_row_def bob_def)
  have calls0: "calls ?w = []" and items0: "localStorage ?w = []"
    by (simp_all add: policy_blocks_def demo_defs)
  have uid_bob: "uid bob = ''u1''" by (simp add: bob_def)
  have um: "userMessage (msg policy_violation)
     = ''Profile creation blocked by database policy. This is likely an RLS configuration issue. Check frontend/RLS_COMPLETE_FIX.md for solution.''"
    by (simp add: userMessage_def policy_violation_def)
  have del: "fst (?sb () (AdminDeleteUser (uid bob))) \<noteq> Inl Nullish"
    by (simp add: demo_defs)
  show ?thesis
    using register_part001_profile_failure [OF c s1 e u s3 pe]
      register_profile_failure [OF c s1 e u s2 s3 pe del]
    by (simp add: row calls0 items0 uid_bob um failure_def) (simp add: policy_violation_def)
qed

section \<open>Properties of the Navigation Component\<close>

text \<open>
  With no cached display fields, \<open>init\<close> names every signed-in user \<open>Guest\<close>:
  \<open>loadUserProfileNameData\<close> runs while \<open>this.user\<close> is still \<open>null\<close>, so it skips the profile
  fetch and the email and stores \<open>Guest\<close>, which \<open>generateNavHTML\<close> then shows in the user menu.
\<close>

lemma init_shows_guest:
  assumes "\<not> truthy_text (map_of (localStorage w) ''mindspend_firstName'')"
    and "\<not> truthy_text (map_of (localStorage w) ''mindspend_username'')"
    and "session_user w = Some u"
  shows "fst (init True Navigation w)
           = Inr (\<lparr>nav_user = Some u, displayName = Some ''Guest''\<rparr>, UserMenu ''Guest'')"
  using assms
  by (simp add: init_def loadUserProfileNameData_def Navigation_def isAuthenticated_def user_email_def
      try_catch_def bindJ_def ret_def getItem_def getCurrentUser_eq generateNavHTML_def userName_def)

text \<open>Called once the user is known, the same function falls back to the email's local part.\<close>

lemma load_name_with_user:
  assumes "\<not> truthy_text (map_of (localStorage w) ''mindspend_firstName'')"
    and "\<not> truthy_text (map_of (localStorage w) ''mindspend_username'')"
    and "fst (getCurrentProfile w) = Inr JNull"
    and "email u = Some e" and "e \<noteq> []"
  shows "fst (loadUserProfileNameData True (Navigation\<lparr>nav_user := Some u\<rparr>) w)
           = Inr \<lparr>nav_user = Some u, displayName = Some (local_part e)\<rparr>"
  using assms
  by (cases "getCurrentProfile w")
     (simp add: loadUserProfileNameData_def Navigation_def isAuthenticated_def user_email_def
      try_catch_def bindJ_def ret_def getItem_def)

text \<open>
  C9. No stored display fields, no profile row, and a session for \<open>bob@example.com\<close>:
  \<open>Navigation.init()\<close> renders the user menu with the name \<open>Guest\<close>, where the fallback
  chain of the claim gives \<open>bob\<close>. \<open>loadUserProfileNameData\<close> itself resolves \<open>bob\<close> when
  \<open>this.user\<close> is already set.
\<close>

theorem init_renders_guest:
  "session_user bob_without_profile = Some bob
   \<and> fst (init True Navigation bob_without_profile)
       = Inr (\<lparr>nav_user = Some bob, displayName = Some ''Guest''\<rparr>, UserMenu ''Guest'')
   \<and> fst (loadUserProfileNameData True (Navigation\<lparr>nav_user := Some bob\<rparr>) bob_without_profile)
       = Inr \<lparr>nav_user = Some bob, displayName = Some ''bob''\<rparr>"
proof -
  let ?w = "bob_without_profile"
  have su: "session_user ?w = Some bob"
    by (simp add: session_user_def bob_without_profile_def demo_defs no_profile_def)
  have f: "\<not> truthy_text (map_of (localStorage ?w) ''mindspend_firstName'')"
    and un: "\<not> truthy_text (map_of (localStorage ?w) ''mindspend_username'')"
    by (simp_all add: bob_without_profile_def demo_defs)
  have p: "fst (getCurrentProfile ?w) = Inr JNull"
    by (simp add: getCurrentProfile_def js_defs getCurrentUser_eq session_user_def after_lookup_def
        bob_without_profile_def demo_defs no_profile_def)
  have e: "email bob = Some ''bob@example.com''" by (simp add: bob_def)
  show ?thesis
    using su init_shows_guest [OF f un su] load_name_with_user [OF f un p e]
    by (simp add: local_part_def)
qed

end
